theory Spec2Isabelle
  imports Complex_Main
begin

section \<open>JavaScript numbers\<close>

text \<open>
  The dashboard computes with JavaScript numbers: binary64 values, two infinities and
  \<open>NaN\<close>. A finite value is kept as the real number it stands for; the sign of zero is
  left out. Two arithmetics are given. The first one (\<open>nadd\<close>, \<open>nsub\<close>, \<open>nmul\<close>,
  \<open>ndiv\<close>) idealises: a finite result is the exact real. It is the arithmetic in which
  the rule of the news score and the change of a treemap entry are stated. The second
  one (\<open>fadd\<close>, \<open>fsub\<close>, \<open>fmul\<close>, \<open>fdiv\<close>, further down) rounds every result to
  binary64 as the runtime does; the recommendation engine is embedded with it, because
  its thresholds and its roundings to integers depend on the last bit of a sum.
  Comparisons, \<open>Math.min\<close>, \<open>Math.max\<close>, \<open>Math.abs\<close> and \<open>Math.round\<close> are exact in
  both.
\<close>

datatype number = Fin real | PosInf | NegInf | NaN

fun nneg :: "number \<Rightarrow> number" where
  "nneg (Fin a) = Fin (- a)"
| "nneg PosInf = NegInf"
| "nneg NegInf = PosInf"
| "nneg NaN = NaN"

fun nadd :: "number \<Rightarrow> number \<Rightarrow> number" where
  "nadd NaN _ = NaN"
| "nadd _ NaN = NaN"
| "nadd (Fin a) (Fin b) = Fin (a + b)"
| "nadd PosInf NegInf = NaN"
| "nadd NegInf PosInf = NaN"
| "nadd PosInf _ = PosInf"
| "nadd _ PosInf = PosInf"
| "nadd NegInf _ = NegInf"
| "nadd _ NegInf = NegInf"

definition nsub :: "number \<Rightarrow> number \<Rightarrow> number" where
  "nsub a b = nadd a (nneg b)"

fun nmul :: "number \<Rightarrow> number \<Rightarrow> number" where
  "nmul NaN _ = NaN"
| "nmul _ NaN = NaN"
| "nmul (Fin a) (Fin b) = Fin (a * b)"
| "nmul (Fin a) PosInf = (if a = 0 then NaN else if 0 < a then PosInf else NegInf)"
| "nmul (Fin a) NegInf = (if a = 0 then NaN else if 0 < a then NegInf else PosInf)"
| "nmul PosInf (Fin b) = (if b = 0 then NaN else if 0 < b then PosInf else NegInf)"
| "nmul NegInf (Fin b) = (if b = 0 then NaN else if 0 < b then NegInf else PosInf)"
| "nmul PosInf PosInf = PosInf"
| "nmul PosInf NegInf = NegInf"
| "nmul NegInf PosInf = NegInf"
| "nmul NegInf NegInf = PosInf"

fun ndiv :: "number \<Rightarrow> number \<Rightarrow> number" where
  "ndiv NaN _ = NaN"
| "ndiv _ NaN = NaN"
| "ndiv (Fin a) (Fin b) =
     (if b = 0 then (if a = 0 then NaN else if 0 < a then PosInf else NegInf)
      else Fin (a / b))"
| "ndiv (Fin a) PosInf = Fin 0"
| "ndiv (Fin a) NegInf = Fin 0"
| "ndiv PosInf (Fin b) = (if 0 \<le> b then PosInf else NegInf)"
| "ndiv NegInf (Fin b) = (if 0 \<le> b then NegInf else PosInf)"
| "ndiv _ _ = NaN"

text \<open>\<open>a < b\<close>; false as soon as one side is \<open>NaN\<close>.\<close>

fun nlt :: "number \<Rightarrow> number \<Rightarrow> bool" where
  "nlt NaN _ = False"
| "nlt _ NaN = False"
| "nlt (Fin a) (Fin b) = (a < b)"
| "nlt _ NegInf = False"
| "nlt PosInf _ = False"
| "nlt NegInf _ = True"
| "nlt _ PosInf = True"

definition ngt :: "number \<Rightarrow> number \<Rightarrow> bool" where
  "ngt a b = nlt b a"

definition nle :: "number \<Rightarrow> number \<Rightarrow> bool" where
  "nle a b = (a \<noteq> NaN \<and> b \<noteq> NaN \<and> \<not> nlt b a)"

definition nge :: "number \<Rightarrow> number \<Rightarrow> bool" where
  "nge a b = nle b a"

text \<open>Strict inequality \<open>a !== b\<close> of two numbers: \<open>NaN\<close> differs from everything.\<close>

definition nneq :: "number \<Rightarrow> number \<Rightarrow> bool" where
  "nneq a b = (a = NaN \<or> b = NaN \<or> a \<noteq> b)"

text \<open>\<open>Math.min\<close>, \<open>Math.max\<close>, \<open>Math.abs\<close> and \<open>Math.round\<close> (halves go up).\<close>

definition Math_min :: "number \<Rightarrow> number \<Rightarrow> number" where
  "Math_min a b = (if a = NaN \<or> b = NaN then NaN else if nlt b a then b else a)"

definition Math_max :: "number \<Rightarrow> number \<Rightarrow> number" where
  "Math_max a b = (if a = NaN \<or> b = NaN then NaN else if nlt a b then b else a)"

fun Math_abs :: "number \<Rightarrow> number" where
  "Math_abs (Fin a) = Fin \<bar>a\<bar>"
| "Math_abs PosInf = PosInf"
| "Math_abs NegInf = PosInf"
| "Math_abs NaN = NaN"

fun Math_round :: "number \<Rightarrow> number" where
  "Math_round (Fin a) = Fin (of_int \<lfloor>a + 1 / 2\<rfloor>)"
| "Math_round x = x"

text \<open>A number is a finite value between two bounds.\<close>

fun between :: "real \<Rightarrow> real \<Rightarrow> number \<Rightarrow> bool" where
  "between lo hi (Fin a) = (lo \<le> a \<and> a \<le> hi)"
| "between lo hi _ = False"

section \<open>The inputs and the result of the recommendation engine\<close>

text \<open>
  \<open>calculateRecommendation\<close> awaits the news analysis, computes the three scores and
  hands a record to \<open>setRecommendation\<close>. Its inputs are the news data the await
  returned and the \<open>tradingSignals\<close>, \<open>forecastData\<close> and \<open>cryptoData\<close> entries of
  the component state; each may be absent (\<open>null\<close>). The counts of articles are
  natural numbers and the prices are finite. The records hold the fields the code
  reads; a reply that lacks one of them is outside the model, so the \<open>catch\<close> of the
  function, which an access to a missing field would reach, has no branch here.
\<close>

record news_summary =
  positive_count :: nat
  negative_count :: nat
  neutral_count :: nat

record news_data =
  total_articles :: nat
  summary :: news_summary

record signal_votes =
  rsi_signal :: string
  macd_signal :: string
  moving_average_signal :: string
  bollinger_signal :: string

record trading_signals =
  signals :: "signal_votes option"

record prediction =
  minutes_ahead :: int
  predicted_price :: real

record forecast_data =
  predictions :: "prediction list option"
  data_error :: bool

record crypto_data =
  c_id :: string
  c_symbol :: string
  c_name :: string
  current_price :: real
  market_cap :: real
  total_volume :: real
  price_change_percentage_1h_in_currency :: real
  price_change_percentage_24h_in_currency :: real
  price_change_percentage_7d_in_currency :: real
  high_24h :: real
  low_24h :: real
  last_updated :: string

text \<open>
  A reasoning line is a template literal: fixed text and interpolated numbers, the latter
  either printed as they are or through \<open>toFixed(1)\<close>. The printing of a number is not
  modelled; the line keeps the number itself.
\<close>

datatype piece = Lit string | Val number | Fixed1 number

type_synonym line = "piece list"

datatype action = BUY | SELL | NEUTRAL

record breakdown =
  news :: number
  technical :: number
  forecast :: number

record recommendation =
  action :: action
  confidence :: number
  breakdown :: breakdown
  reasoning :: "line list"

text \<open>The news block, \<open>newsScore\<close> and \<open>newsReasoning\<close>, in the exact arithmetic.\<close>

definition newsScore :: "news_data option \<Rightarrow> number \<times> line list" where
  "newsScore newsAnalysisData =
     (case newsAnalysisData of
        None \<Rightarrow> (Fin 50, [[Lit ''No recent news data available'']])
      | Some d \<Rightarrow>
          if 0 < total_articles d then
            (let positiveRatio = ndiv (Fin (real (positive_count (summary d)))) (Fin (real (total_articles d)));
                 negativeRatio = ndiv (Fin (real (negative_count (summary d)))) (Fin (real (total_articles d)))
             in if ngt positiveRatio (Fin (6 / 10)) then
                  (nadd (Fin 75) (nmul positiveRatio (Fin 25)),
                   [[Val (Math_round (nmul positiveRatio (Fin 100))),
                     Lit ''% positive news sentiment'']])
                else if ngt negativeRatio (Fin (6 / 10)) then
                  (nsub (Fin 25) (nmul negativeRatio (Fin 25)),
                   [[Val (Math_round (nmul negativeRatio (Fin 100))),
                     Lit ''% negative news sentiment'']])
                else
                  (nadd (Fin 40) (nmul (nsub positiveRatio negativeRatio) (Fin 20)),
                   [[Lit ''Mixed news sentiment ('',
                     Val (Math_round (nmul positiveRatio (Fin 100))),
                     Lit ''% positive, '',
                     Val (Math_round (nmul negativeRatio (Fin 100))),
                     Lit ''% negative)'']]))
          else (Fin 50, [[Lit ''No recent news data available'']]))"

section \<open>Binary64 arithmetic\<close>

text \<open>
  Rounding to the nearest binary64 value, ties to the even significand. \<open>expo x\<close> is
  the binary exponent of \<open>x\<close> (\<open>2^e \<le> |x| < 2^(e+1)\<close>), computed from the number of
  binary digits of an integer; \<open>ulp x\<close> is the spacing of the binary64 values around \<open>x\<close>,
  that of the subnormal values below \<open>2^-1022\<close>; \<open>rd x\<close> is the multiple of \<open>ulp x\<close>
  nearest to \<open>x\<close>; \<open>fl x\<close> is \<open>rd x\<close>, or an infinity when that is \<open>2^1024\<close> or more in
  absolute value.
\<close>

fun bits :: "nat \<Rightarrow> nat" where
  "bits n = (if n = 0 then 0 else Suc (bits (n div 2)))"

declare bits.simps [simp del]

definition expo :: "real \<Rightarrow> int" where
  "expo x = (if 1 \<le> \<bar>x\<bar> then int (bits (nat \<lfloor>\<bar>x\<bar>\<rfloor>)) - 1
             else - int (bits (nat (\<lceil>1 / \<bar>x\<bar>\<rceil> - 1))))"

definition rne :: "real \<Rightarrow> int" where
  "rne x = (let f = \<lfloor>x\<rfloor>; d = x - of_int f
            in if d < 1 / 2 then f else if 1 / 2 < d then f + 1
               else if even f then f else f + 1)"

definition ulp :: "real \<Rightarrow> real" where
  "ulp x = 2 powi (max (expo x) (- 1022) - 52)"

definition rd :: "real \<Rightarrow> real" where
  "rd x = sgn x * (of_int (rne (\<bar>x\<bar> / ulp x)) * ulp x)"

definition fl :: "real \<Rightarrow> number" where
  "fl x = (if 2 ^ 1024 \<le> rd x then PosInf
           else if rd x \<le> - (2 ^ 1024) then NegInf else Fin (rd x))"

text \<open>A decimal literal of the source, such as \<open>0.3\<close>, is the binary64 value nearest to it.\<close>

definition lit :: "real \<Rightarrow> number" where
  "lit x = fl x"

fun fadd :: "number \<Rightarrow> number \<Rightarrow> number" where
  "fadd NaN _ = NaN"
| "fadd _ NaN = NaN"
| "fadd (Fin a) (Fin b) = fl (a + b)"
| "fadd PosInf NegInf = NaN"
| "fadd NegInf PosInf = NaN"
| "fadd PosInf _ = PosInf"
| "fadd _ PosInf = PosInf"
| "fadd NegInf _ = NegInf"
| "fadd _ NegInf = NegInf"

definition fsub :: "number \<Rightarrow> number \<Rightarrow> number" where
  "fsub a b = fadd a (nneg b)"

fun fmul :: "number \<Rightarrow> number \<Rightarrow> number" where
  "fmul NaN _ = NaN"
| "fmul _ NaN = NaN"
| "fmul (Fin a) (Fin b) = fl (a * b)"
| "fmul (Fin a) PosInf = (if a = 0 then NaN else if 0 < a then PosInf else NegInf)"
| "fmul (Fin a) NegInf = (if a = 0 then NaN else if 0 < a then NegInf else PosInf)"
| "fmul PosInf (Fin b) = (if b = 0 then NaN else if 0 < b then PosInf else NegInf)"
| "fmul NegInf (Fin b) = (if b = 0 then NaN else if 0 < b then NegInf else PosInf)"
| "fmul PosInf PosInf = PosInf"
| "fmul PosInf NegInf = NegInf"
| "fmul NegInf PosInf = NegInf"
| "fmul NegInf NegInf = PosInf"

fun fdiv :: "number \<Rightarrow> number \<Rightarrow> number" where
  "fdiv NaN _ = NaN"
| "fdiv _ NaN = NaN"
| "fdiv (Fin a) (Fin b) =
     (if b = 0 then (if a = 0 then NaN else if 0 < a then PosInf else NegInf)
      else fl (a / b))"
| "fdiv (Fin a) PosInf = Fin 0"
| "fdiv (Fin a) NegInf = Fin 0"
| "fdiv PosInf (Fin b) = (if 0 \<le> b then PosInf else NegInf)"
| "fdiv NegInf (Fin b) = (if 0 \<le> b then NegInf else PosInf)"
| "fdiv _ _ = NaN"

section \<open>The recommendation engine in binary64\<close>

text \<open>
  The body of \<open>calculateRecommendation\<close>, every arithmetic operation rounded. The news
  block is \<open>newsScore\<close> again, with the rounding operations in the place of the exact
  ones.
\<close>

definition newsScore64 :: "news_data option \<Rightarrow> number \<times> line list" where
  "newsScore64 newsAnalysisData =
     (case newsAnalysisData of
        None \<Rightarrow> (Fin 50, [[Lit ''No recent news data available'']])
      | Some d \<Rightarrow>
          if 0 < total_articles d then
            (let positiveRatio = fdiv (Fin (real (positive_count (summary d)))) (Fin (real (total_articles d)));
                 negativeRatio = fdiv (Fin (real (negative_count (summary d)))) (Fin (real (total_articles d)))
             in if ngt positiveRatio (lit (6 / 10)) then
                  (fadd (Fin 75) (fmul positiveRatio (Fin 25)),
                   [[Val (Math_round (fmul positiveRatio (Fin 100))),
                     Lit ''% positive news sentiment'']])
                else if ngt negativeRatio (lit (6 / 10)) then
                  (fsub (Fin 25) (fmul negativeRatio (Fin 25)),
                   [[Val (Math_round (fmul negativeRatio (Fin 100))),
                     Lit ''% negative news sentiment'']])
                else
                  (fadd (Fin 40) (fmul (fsub positiveRatio negativeRatio) (Fin 20)),
                   [[Lit ''Mixed news sentiment ('',
                     Val (Math_round (fmul positiveRatio (Fin 100))),
                     Lit ''% positive, '',
                     Val (Math_round (fmul negativeRatio (Fin 100))),
                     Lit ''% negative)'']]))
          else (Fin 50, [[Lit ''No recent news data available'']]))"

text \<open>The technical block: the four indicator votes are counted.\<close>

definition bullishSignals :: "signal_votes \<Rightarrow> nat" where
  "bullishSignals s =
     (if rsi_signal s = ''BUY'' then 1 else 0) +
     (if macd_signal s = ''BUY'' then 1 else 0) +
     (if moving_average_signal s = ''BUY'' then 1 else 0) +
     (if bollinger_signal s = ''BUY'' then 1 else 0)"

definition bearishSignals :: "signal_votes \<Rightarrow> nat" where
  "bearishSignals s =
     (if rsi_signal s = ''SELL'' then 1 else 0) +
     (if macd_signal s = ''SELL'' then 1 else 0) +
     (if moving_average_signal s = ''SELL'' then 1 else 0) +
     (if bollinger_signal s = ''SELL'' then 1 else 0)"

definition technicalScore :: "trading_signals option \<Rightarrow> number \<times> line list" where
  "technicalScore tradingSignals =
     (case tradingSignals of
        None \<Rightarrow> (Fin 50, [[Lit ''No technical analysis data available'']])
      | Some ts \<Rightarrow>
          (case signals ts of
             None \<Rightarrow> (Fin 50, [[Lit ''No technical analysis data available'']])
           | Some s \<Rightarrow>
               (let totalSignals = bullishSignals s + bearishSignals s
                in if 0 < totalSignals then
                     (let bullishRatio = fdiv (Fin (real (bullishSignals s))) (Fin (real totalSignals))
                      in (fmul bullishRatio (Fin 100),
                          [[Val (Fin (real (bullishSignals s))), Lit ''/'',
                            Val (Fin (real totalSignals)),
                            Lit '' technical indicators bullish'']]))
                   else (Fin 50, [[Lit ''Technical indicators neutral'']]))))"

text \<open>The forecast block: the first prediction within 24 hours against the current price.\<close>

definition changePercent :: "real \<Rightarrow> real \<Rightarrow> number" where
  "changePercent predictedPrice currentPrice =
     fmul (fdiv (fsub (Fin predictedPrice) (Fin currentPrice)) (Fin currentPrice)) (Fin 100)"

definition forecastBand :: "number \<Rightarrow> number \<times> line list" where
  "forecastBand cp =
     (if ngt cp (Fin 5) then
        (fadd (Fin 75) (Math_min cp (Fin 25)),
         [[Lit ''Forecast predicts +'', Fixed1 cp, Lit ''% price increase'']])
      else if nlt cp (Fin (- 5)) then
        (fadd (Fin 25) (Math_max cp (Fin (- 25))),
         [[Lit ''Forecast predicts '', Fixed1 cp, Lit ''% price decrease'']])
      else
        (fadd (Fin 50) (fmul cp (Fin 5)),
         [[Lit ''Forecast predicts '', Lit (if ngt cp (Fin 0) then ''+'' else ''''),
           Fixed1 cp, Lit ''% price change'']]))"

definition forecastScore :: "forecast_data option \<Rightarrow> crypto_data option \<Rightarrow> number \<times> line list" where
  "forecastScore forecastData cryptoData =
     (case (forecastData, cryptoData) of
        (Some f, Some c) \<Rightarrow>
          (case predictions f of
             None \<Rightarrow> (Fin 50, [[Lit ''No forecast data available'']])
           | Some ps \<Rightarrow>
               (case find (\<lambda>p. minutes_ahead p \<le> 1440) ps of
                  None \<Rightarrow> (Fin 50, [[Lit ''No short-term forecast available'']])
                | Some shortTermPrediction \<Rightarrow>
                    forecastBand (changePercent (predicted_price shortTermPrediction)
                                                (current_price c))))
      | _ \<Rightarrow> (Fin 50, [[Lit ''No forecast data available'']]))"

text \<open>The weighted overall score and the action thresholds, first match first.\<close>

definition overallScore :: "number \<Rightarrow> number \<Rightarrow> number \<Rightarrow> number" where
  "overallScore n t f =
     fadd (fadd (fmul n (lit (3 / 10))) (fmul t (lit (4 / 10)))) (fmul f (lit (3 / 10)))"

definition decide :: "number \<Rightarrow> action \<times> number" where
  "decide overall =
     (if nge overall (Fin 70) then (BUY, Math_min overall (Fin 95))
      else if nle overall (Fin 30) then (SELL, Math_min (fsub (Fin 100) overall) (Fin 95))
      else (NEUTRAL, fmul (Math_abs (fsub (Fin 50) overall)) (Fin 2)))"

definition calculateRecommendation ::
  "news_data option \<Rightarrow> trading_signals option \<Rightarrow> forecast_data option \<Rightarrow>
   crypto_data option \<Rightarrow> recommendation" where
  "calculateRecommendation newsAnalysisData tradingSignals forecastData cryptoData =
     (let (newsS, newsReasoning) = newsScore64 newsAnalysisData;
          (technicalS, technicalReasoning) = technicalScore tradingSignals;
          (forecastS, forecastReasoning) = forecastScore forecastData cryptoData;
          overall = overallScore newsS technicalS forecastS;
          (act, conf) = decide overall
      in \<lparr> action = act,
           confidence = Math_round conf,
           breakdown = \<lparr> news = Math_round newsS,
                         technical = Math_round technicalS,
                         forecast = Math_round forecastS \<rparr>,
           reasoning = newsReasoning @ technicalReasoning @ forecastReasoning \<rparr>)"

section \<open>Replies of the network\<close>

text \<open>
  An awaited call either throws or returns. A \<open>fetch\<close> returns a response with its
  \<open>ok\<close> flag and a \<open>json()\<close> that may throw in turn; every endpoint answers with a body
  of a \<open>success\<close> flag and a payload (\<open>data\<close>, or \<open>signals\<close> for the signals action),
  which may be missing.
\<close>

datatype 'a outcome = Throws | Returns 'a

record 'd body =
  success :: bool
  data :: "'d option"

record 'd response =
  ok :: bool
  json :: "'d body outcome"

type_synonym 'd reply = "'d response outcome"

text \<open>The two awaits \<open>fetch(...)\<close> and \<open>response.json()\<close> in a row, with no look at \<open>ok\<close>.\<close>

definition fetch_json :: "'d reply \<Rightarrow> 'd body outcome" where
  "fetch_json r = (case r of Throws \<Rightarrow> Throws | Returns resp \<Rightarrow> json resp)"

section \<open>Dates\<close>

text \<open>
  A \<open>Date\<close> read in local time. \<open>toDateString\<close> prints the weekday, the month, the day
  of the month and the year, and \<open>toLocaleTimeString\<close> the time of day; the embedding
  keeps the fields each string is printed from instead of the text. \<open>NoDate\<close> and
  \<open>NoTime\<close> stand for the empty string the state starts with.
\<close>

record clock =
  year :: int
  month :: nat
  dayOfMonth :: nat
  hours :: nat
  minutes :: nat
  seconds :: nat

datatype date_string = NoDate | DateString int nat nat

datatype time_string = NoTime | TimeString nat nat nat

definition toDateString :: "clock \<Rightarrow> date_string" where
  "toDateString d = DateString (year d) (month d) (dayOfMonth d)"

definition toLocaleTimeString :: "clock \<Rightarrow> time_string" where
  "toLocaleTimeString d = TimeString (hours d) (minutes d) (seconds d)"

text \<open>
  \<open>new Date(x).getDate()\<close>: the day of the month, or \<open>NaN\<close> when \<open>x\<close> does not
  parse to a date (\<open>None\<close>).
\<close>

definition getDate :: "clock option \<Rightarrow> number" where
  "getDate d = (case d of None \<Rightarrow> NaN | Some c \<Rightarrow> Fin (real (dayOfMonth c)))"

section \<open>The state of the dashboard\<close>

record point =
  p_id :: string
  p_symbol :: string
  p_name :: string
  price_usd :: real
  p_market_cap :: real
  volume_24h :: real
  price_change_1h :: real
  price_change_24h :: real
  price_change_7d :: real
  p_high_24h :: real
  p_low_24h :: real
  p_last_updated :: string
  timestamp :: int

record treemap_coin =
  t_id :: string
  t_symbol :: string
  t_name :: string
  t_market_cap :: real
  t_current_price :: real
  price_change_percentage_24h :: number
  t_last_updated :: string

record candle_data =
  fetched_at :: "clock option"
  data_points :: nat

text \<open>The calls of \<open>console.error\<close> and \<open>console.warn\<close>, one constructor for each place.\<close>

datatype log_entry =
    ErrorFetchingCoinData
  | ErrorFetchingMinIOData
  | ErrorFetchingRealTimeChartData
  | WarnCandleUpdateFailed
  | ErrorFailedToFetchCandleData
  | ErrorFetchingCandleData
  | ErrorForecastGenerationFailed
  | ErrorFetchingForecastData
  | WarnFailedToFetchDataFor string

datatype task = DataRefresh | ForecastRefresh | CandleCheck | MinIOFetch

text \<open>
  The \<open>useState\<close> cells the refresh logic reads or writes, the console, and what the
  runtime holds for the component: the interval timers that are set, the calls of the
  refresh functions that have started and not yet returned, each with the
  \<open>selectedCoin\<close> of the closure it runs in, and the \<open>candleData\<close> and
  \<open>lastCandleFetchDate\<close> of the render in which the interval effect last ran, which
  are the values the closures held by the intervals go on reading.
\<close>

record dashboard =
  cryptoData :: "crypto_data option"
  selectedCoin :: string
  loading :: bool
  lastUpdate :: time_string
  treemapData :: "treemap_coin list"
  globalDataLoading :: bool
  realTimeChartData :: "point list"
  forecastData :: "forecast_data option"
  candleData :: "candle_data option"
  tradingSignals :: "trading_signals option"
  priceCountdown :: nat
  forecastCountdown :: nat
  lastCandleFetchDate :: date_string
  console :: "log_entry list"
  timers :: "(task \<times> string) list"
  running :: "(task \<times> string) list"
  closureCandleData :: "candle_data option"
  closureLastCandleFetchDate :: date_string

definition initial :: dashboard where
  "initial = \<lparr> cryptoData = None, selectedCoin = ''bitcoin'', loading = False,
      lastUpdate = NoTime, treemapData = [], globalDataLoading = False,
      realTimeChartData = [], forecastData = None, candleData = None,
      tradingSignals = None, priceCountdown = 60, forecastCountdown = 300,
      lastCandleFetchDate = NoDate, console = [], timers = [], running = [],
      closureCandleData = None, closureLastCandleFetchDate = NoDate \<rparr>"

definition console_add :: "log_entry \<Rightarrow> dashboard \<Rightarrow> dashboard" where
  "console_add e st = st\<lparr>console := console st @ [e]\<rparr>"

section \<open>The price feeds\<close>

text \<open>
  \<open>fetchCurrentCoinData\<close>. The helper \<open>fetchCoinData\<close> is imported from \<open>lib/api\<close>;
  what its call does (throw, or return a coin or \<open>null\<close>) is a parameter.
\<close>

definition fetchCurrentCoinData ::
  "string \<Rightarrow> clock \<Rightarrow> crypto_data option outcome \<Rightarrow> dashboard \<Rightarrow> dashboard" where
  "fetchCurrentCoinData coin now coinData st =
     (if coin = [] then st
      else (case coinData of
              Throws \<Rightarrow> (console_add ErrorFetchingCoinData (st\<lparr>loading := True\<rparr>))\<lparr>loading := False\<rparr>
            | Returns None \<Rightarrow> st\<lparr>loading := False\<rparr>
            | Returns (Some c) \<Rightarrow>
                st\<lparr>cryptoData := Some c, lastUpdate := toLocaleTimeString now,
                   loading := False\<rparr>))"

definition fromLatest :: "point \<Rightarrow> crypto_data" where
  "fromLatest latestData =
     \<lparr> c_id = p_id latestData, c_symbol = p_symbol latestData, c_name = p_name latestData,
       current_price = price_usd latestData, market_cap = p_market_cap latestData,
       total_volume = volume_24h latestData,
       price_change_percentage_1h_in_currency = price_change_1h latestData,
       price_change_percentage_24h_in_currency = price_change_24h latestData,
       price_change_percentage_7d_in_currency = price_change_7d latestData,
       high_24h = p_high_24h latestData, low_24h = p_low_24h latestData,
       last_updated = p_last_updated latestData \<rparr>"

definition fetchMinIOData ::
  "string \<Rightarrow> clock \<Rightarrow> point list reply \<Rightarrow> crypto_data option outcome \<Rightarrow>
   dashboard \<Rightarrow> dashboard" where
  "fetchMinIOData coin now r coinData st =
     (let caught = (\<lambda>s. fetchCurrentCoinData coin now coinData (console_add ErrorFetchingMinIOData s))
      in if coin = [] then st
         else (case r of
                 Throws \<Rightarrow> caught st
               | Returns resp \<Rightarrow>
                   if ok resp then
                     (case json resp of
                        Throws \<Rightarrow> caught st
                      | Returns result \<Rightarrow>
                          if success result then
                            (case data result of
                               None \<Rightarrow> caught st
                             | Some ps \<Rightarrow>
                                 if 0 < length ps then
                                   st\<lparr>cryptoData := Some (fromLatest (ps ! (length ps - 1))),
                                      lastUpdate := toLocaleTimeString now\<rparr>
                                 else fetchCurrentCoinData coin now coinData st)
                          else fetchCurrentCoinData coin now coinData st)
                   else st))"

definition fetchRealTimeChartData :: "point list reply \<Rightarrow> dashboard \<Rightarrow> dashboard" where
  "fetchRealTimeChartData r st =
     (case r of
        Throws \<Rightarrow> console_add ErrorFetchingRealTimeChartData st
      | Returns resp \<Rightarrow>
          if ok resp then
            (case json resp of
               Throws \<Rightarrow> console_add ErrorFetchingRealTimeChartData st
             | Returns result \<Rightarrow>
                 if success result then
                   (case data result of
                      None \<Rightarrow> console_add ErrorFetchingRealTimeChartData st
                    | Some ps \<Rightarrow>
                        if 0 < length ps then st\<lparr>realTimeChartData := sort_key timestamp ps\<rparr>
                        else st)
                 else st)
          else st)"

section \<open>The treemap: one fetch for each coin of the list\<close>

definition coinIds :: "string list" where
  "coinIds =
     [''bitcoin'', ''ethereum'', ''tether'', ''bnb'', ''solana'', ''usdc'', ''xrp'', ''steth'',
      ''cardano'', ''dogecoin'', ''avalanche-2'', ''tron'', ''shiba-inu'', ''chainlink'',
      ''wrapped-bitcoin'', ''polkadot'', ''bitcoin-cash'', ''uniswap'', ''near'', ''litecoin'',
      ''polygon'', ''internet-computer'', ''dai'', ''kaspa'', ''ethereum-classic'', ''monero'',
      ''stellar'', ''okb'', ''filecoin'', ''cosmos'', ''cronos'', ''hedera-hashgraph'',
      ''mantle'', ''arbitrum'', ''vechain'', ''render-token'', ''immutable-x'', ''optimism'',
      ''first-digital-usd'', ''maker'', ''injective-protocol'', ''celestia'', ''sei-network'',
      ''bittensor'', ''thorchain'', ''the-graph'', ''fantom'', ''rocket-pool-eth'', ''lido-dao'',
      ''aave'']"

definition priceChange :: "point \<Rightarrow> point \<Rightarrow> number" where
  "priceChange latestData previousData =
     nmul (ndiv (nsub (Fin (price_usd latestData)) (Fin (price_usd previousData)))
                (Fin (price_usd previousData)))
          (Fin 100)"

text \<open>
  The function mapped over \<open>coinIds\<close>: the entry of one coin, \<open>None\<close> for \<open>null\<close>. An
  exception of this coin's fetch is caught here, inside the coin's own promise.
\<close>

definition treemapEntry :: "point list reply \<Rightarrow> treemap_coin option" where
  "treemapEntry r =
     (case fetch_json r of
        Throws \<Rightarrow> None
      | Returns result \<Rightarrow>
          if success result then
            (case data result of
               None \<Rightarrow> None
             | Some ps \<Rightarrow>
                 if 2 \<le> length ps then
                   (let latestData = ps ! (length ps - 1);
                        previousData = ps ! (length ps - 2)
                    in Some \<lparr> t_id = p_id latestData, t_symbol = p_symbol latestData,
                              t_name = p_name latestData,
                              t_market_cap = p_market_cap latestData,
                              t_current_price = price_usd latestData,
                              price_change_percentage_24h = priceChange latestData previousData,
                              t_last_updated = p_last_updated latestData \<rparr>)
                 else None)
          else None)"

definition treemapWarnings :: "(string \<Rightarrow> point list reply) \<Rightarrow> log_entry list" where
  "treemapWarnings replies =
     map WarnFailedToFetchDataFor (filter (\<lambda>coinId. fetch_json (replies coinId) = Throws) coinIds)"

text \<open>
  \<open>results.filter(coin => coin !== null)\<close>, then the stable sort with the comparator
  \<open>b.market_cap - a.market_cap\<close> and \<open>slice(0, 50)\<close>.
\<close>

definition validCoins :: "(string \<Rightarrow> point list reply) \<Rightarrow> treemap_coin list" where
  "validCoins replies = List.map_filter (\<lambda>coinId. treemapEntry (replies coinId)) coinIds"

definition sortedCoins :: "treemap_coin list \<Rightarrow> treemap_coin list" where
  "sortedCoins cs = take 50 (sort_key (\<lambda>c. - t_market_cap c) cs)"

definition fetchTreemapData :: "(string \<Rightarrow> point list reply) \<Rightarrow> dashboard \<Rightarrow> dashboard" where
  "fetchTreemapData replies st =
     (let st1 = st\<lparr>console := console st @ treemapWarnings replies\<rparr>
      in if 0 < length (validCoins replies)
         then st1\<lparr>treemapData := sortedCoins (validCoins replies)\<rparr>
         else st1)"

record data_replies =
  minio :: "point list reply"
  coinData :: "crypto_data option outcome"
  chart :: "point list reply"
  treemap :: "string \<Rightarrow> point list reply"

text \<open>
  \<open>refreshAllData\<close>, from the call to the return. None of the three fetchers lets an
  exception out, so the \<open>catch\<close> of \<open>refreshAllData\<close> has nothing to catch.
\<close>

definition refreshAllData :: "string \<Rightarrow> clock \<Rightarrow> data_replies \<Rightarrow> dashboard \<Rightarrow> dashboard" where
  "refreshAllData coin now r st =
     (let st1 = st\<lparr>globalDataLoading := True\<rparr>;
          st2 = fetchMinIOData coin now (minio r) (coinData r) st1;
          st3 = fetchRealTimeChartData (chart r) st2;
          st4 = fetchTreemapData (treemap r) st3
      in st4\<lparr>priceCountdown := 60, lastUpdate := toLocaleTimeString now,
             globalDataLoading := False\<rparr>)"

section \<open>The candle data and its two daily checks\<close>

definition shouldUpdateCandleData :: "dashboard \<Rightarrow> clock \<Rightarrow> bool" where
  "shouldUpdateCandleData st now =
     (let today = toDateString now
      in lastCandleFetchDate st \<noteq> today \<or> candleData st = None)"

text \<open>The constant \<open>shouldUpdate\<close> at the head of \<open>fetchCandleData\<close>.\<close>

definition shouldUpdate :: "dashboard \<Rightarrow> clock \<Rightarrow> bool" where
  "shouldUpdate st now =
     (case candleData st of
        None \<Rightarrow> True
      | Some cd \<Rightarrow> nneq (getDate (fetched_at cd)) (getDate (Some now)))"

record candle_replies =
  update :: "unit reply"
  indicators :: "candle_data reply"
  signals_reply :: "trading_signals reply"

text \<open>
  The functions of the component are closures of a render: what they read of
  \<open>candleData\<close> and \<open>lastCandleFetchDate\<close> is the value of the render that made them,
  what they write goes to the state as it is. \<open>checkAndUpdateCandleData\<close> and the
  \<open>fetchCandleData\<close> it calls are only ever called by the interval effect and by the
  interval it sets, so they are the closures of the render in which that effect ran.
  \<open>capture\<close> stores the two values of that render and \<open>closure_view\<close> is the state as
  these closures read it.
\<close>

definition capture :: "dashboard \<Rightarrow> dashboard \<Rightarrow> dashboard" where
  "capture render st =
     st\<lparr>closureCandleData := candleData render,
        closureLastCandleFetchDate := lastCandleFetchDate render\<rparr>"

definition closure_view :: "dashboard \<Rightarrow> dashboard" where
  "closure_view st =
     st\<lparr>candleData := closureCandleData st,
        lastCandleFetchDate := closureLastCandleFetchDate st\<rparr>"

text \<open>
  \<open>fetchCandleData\<close>. Its \<open>shouldUpdate\<close> reads the \<open>candleData\<close> of the closure. What
  was written before an exception stays written; the \<open>catch\<close> then logs and sets
  \<open>candleData\<close> to \<open>null\<close>.
\<close>

definition candleCaught :: "dashboard \<Rightarrow> dashboard" where
  "candleCaught st = (console_add ErrorFetchingCandleData st)\<lparr>candleData := None\<rparr>"

definition fetchSignals :: "trading_signals reply \<Rightarrow> dashboard \<Rightarrow> dashboard" where
  "fetchSignals r st =
     (case fetch_json r of
        Throws \<Rightarrow> candleCaught st
      | Returns signalsResult \<Rightarrow>
          if success signalsResult then
            (case data signalsResult of
               None \<Rightarrow> st
             | Some s \<Rightarrow> st\<lparr>tradingSignals := Some s\<rparr>)
          else st)"

definition fetchIndicators :: "clock \<Rightarrow> candle_replies \<Rightarrow> dashboard \<Rightarrow> dashboard" where
  "fetchIndicators now r st =
     (case fetch_json (indicators r) of
        Throws \<Rightarrow> candleCaught st
      | Returns result \<Rightarrow>
          (case (if success result then data result else None) of
             Some d \<Rightarrow>
               fetchSignals (signals_reply r)
                 (st\<lparr>candleData := Some d, lastCandleFetchDate := toDateString now\<rparr>)
           | None \<Rightarrow> (console_add ErrorFailedToFetchCandleData st)\<lparr>candleData := None\<rparr>))"

definition fetchCandleData :: "clock \<Rightarrow> candle_replies \<Rightarrow> dashboard \<Rightarrow> dashboard" where
  "fetchCandleData now r st =
     (if shouldUpdate (closure_view st) now then
        (case fetch_json (update r) of
           Throws \<Rightarrow> candleCaught st
         | Returns updateResult \<Rightarrow>
             fetchIndicators now r
               (if \<not> success updateResult then console_add WarnCandleUpdateFailed st else st))
      else fetchIndicators now r st)"

definition checkAndUpdateCandleData :: "clock \<Rightarrow> candle_replies \<Rightarrow> dashboard \<Rightarrow> dashboard" where
  "checkAndUpdateCandleData now r st =
     (if shouldUpdateCandleData (closure_view st) now then fetchCandleData now r st else st)"

section \<open>The forecast\<close>

record forecast_replies =
  from_minio :: "forecast_data reply"
  generate :: "forecast_data reply"

definition usable :: "forecast_data body \<Rightarrow> forecast_data option" where
  "usable result =
     (if success result then
        (case data result of
           None \<Rightarrow> None
         | Some d \<Rightarrow> if data_error d then None else Some d)
      else None)"

definition forecastCaught :: "dashboard \<Rightarrow> dashboard" where
  "forecastCaught st = (console_add ErrorFetchingForecastData st)\<lparr>forecastData := None\<rparr>"

text \<open>The second half of \<open>fetchForecastData\<close>: a new forecast is generated.\<close>

definition generateForecast :: "forecast_data reply \<Rightarrow> dashboard \<Rightarrow> dashboard" where
  "generateForecast r st =
     (case r of
        Throws \<Rightarrow> forecastCaught st
      | Returns generateResponse \<Rightarrow>
          if ok generateResponse then
            (case json generateResponse of
               Throws \<Rightarrow> forecastCaught st
             | Returns generateResult \<Rightarrow>
                 (case usable generateResult of
                    Some d \<Rightarrow> st\<lparr>forecastData := Some d\<rparr>
                  | None \<Rightarrow> (console_add ErrorForecastGenerationFailed st)\<lparr>forecastData := None\<rparr>))
          else st)"

definition fetchForecastData :: "forecast_replies \<Rightarrow> dashboard \<Rightarrow> dashboard" where
  "fetchForecastData r st =
     (case from_minio r of
        Throws \<Rightarrow> forecastCaught st
      | Returns response \<Rightarrow>
          if ok response then
            (case json response of
               Throws \<Rightarrow> forecastCaught st
             | Returns result \<Rightarrow>
                 (case usable result of
                    Some d \<Rightarrow> st\<lparr>forecastData := Some d\<rparr>
                  | None \<Rightarrow> generateForecast (generate r) st))
          else generateForecast (generate r) st)"

definition refreshForecastData :: "forecast_replies \<Rightarrow> dashboard \<Rightarrow> dashboard" where
  "refreshForecastData r st = (fetchForecastData r st)\<lparr>forecastCountdown := 300\<rparr>"

section \<open>The effects: coin switch, interval timers, calls in flight\<close>

text \<open>
  The effect on \<open>selectedCoin\<close> that resets the candle data, and the effect that calls
  the three refresh functions and sets their intervals; its cleanup clears the three
  intervals and nothing else. Both effects run after the render in which
  \<open>selectedCoin\<close> changed, so the functions the second effect calls and hands to
  \<open>setInterval\<close> are the closures of that render: they read the \<open>candleData\<close> and the
  \<open>lastCandleFetchDate\<close> of that render, from before the reset, at every later tick
  as well. A call that has started stays in \<open>running\<close> until it returns:
  \<open>begin_call\<close> adds it and \<open>complete_call\<close> removes it and runs the body of the call,
  which writes into the state as it is when the replies arrive.
\<close>

definition resetCandle :: "dashboard \<Rightarrow> dashboard" where
  "resetCandle st =
     (if selectedCoin st \<noteq> [] then
        st\<lparr>lastCandleFetchDate := NoDate, candleData := None, tradingSignals := None\<rparr>
      else st)"

text \<open>
  A refresh function is called. \<open>refreshAllData\<close> and \<open>refreshForecastData\<close> start
  their fetches at once; \<open>checkAndUpdateCandleData\<close> starts \<open>fetchCandleData\<close> only when
  \<open>shouldUpdateCandleData\<close>, evaluated in the closure, says so and returns at once
  otherwise; \<open>fetchMinIOData\<close>, called by the click on a coin, returns at once when the
  coin of its closure is empty.
\<close>

definition begin_call :: "task \<Rightarrow> string \<Rightarrow> clock \<Rightarrow> dashboard \<Rightarrow> dashboard" where
  "begin_call t coin now st =
     (case t of
        DataRefresh \<Rightarrow> st\<lparr>globalDataLoading := True, running := running st @ [(t, coin)]\<rparr>
      | ForecastRefresh \<Rightarrow> st\<lparr>running := running st @ [(t, coin)]\<rparr>
      | CandleCheck \<Rightarrow>
          if shouldUpdateCandleData (closure_view st) now
          then st\<lparr>running := running st @ [(t, coin)]\<rparr>
          else st
      | MinIOFetch \<Rightarrow>
          if coin \<noteq> [] then st\<lparr>running := running st @ [(t, coin)]\<rparr> else st)"

definition clearIntervals :: "dashboard \<Rightarrow> dashboard" where
  "clearIntervals st = st\<lparr>timers := []\<rparr>"

definition intervalEffect :: "clock \<Rightarrow> dashboard \<Rightarrow> dashboard" where
  "intervalEffect now st =
     (let coin = selectedCoin st;
          st1 = begin_call DataRefresh coin now st;
          st2 = begin_call ForecastRefresh coin now st1;
          st3 = begin_call CandleCheck coin now st2
      in st3\<lparr>timers := [(DataRefresh, coin), (ForecastRefresh, coin), (CandleCheck, coin)]\<rparr>)"

text \<open>
  The first render: both effects run, the closures are those of the state the
  component starts with.
\<close>

definition mount :: "clock \<Rightarrow> dashboard \<Rightarrow> dashboard" where
  "mount now st = intervalEffect now (capture st (resetCandle st))"

text \<open>
  The click on a coin of the list: \<open>setSelectedCoin(coin.id)\<close>, then \<open>fetchMinIOData()\<close>
  of the render that drew the list, hence for the coin selected until then. When the
  coin is a new one the component renders again: the cleanup clears the intervals, the
  candle data is reset and the interval effect runs in the closures of the new render,
  which still hold the candle data and the date stamp of the old coin.
\<close>

definition switchCoin :: "string \<Rightarrow> clock \<Rightarrow> dashboard \<Rightarrow> dashboard" where
  "switchCoin coin now st =
     (let st0 = begin_call MinIOFetch (selectedCoin st) now st
      in if coin = selectedCoin st then st0
         else intervalEffect now
                (capture st (resetCandle (clearIntervals (st0\<lparr>selectedCoin := coin\<rparr>)))))"

text \<open>An interval fires: the callback of every timer set for the task is called.\<close>

definition tick :: "task \<Rightarrow> clock \<Rightarrow> dashboard \<Rightarrow> dashboard" where
  "tick t now st =
     fold (\<lambda>(t', coin) s. if t' = t then begin_call t coin now s else s) (timers st) st"

record minio_replies =
  minio_reply :: "point list reply"
  fallback :: "crypto_data option outcome"

datatype replies =
    DataReplies data_replies
  | ForecastReplies forecast_replies
  | CandleReplies candle_replies
  | MinIOReplies minio_replies

definition task_of :: "replies \<Rightarrow> task" where
  "task_of r = (case r of DataReplies _ \<Rightarrow> DataRefresh
                | ForecastReplies _ \<Rightarrow> ForecastRefresh
                | CandleReplies _ \<Rightarrow> CandleCheck
                | MinIOReplies _ \<Rightarrow> MinIOFetch)"

text \<open>
  The replies of a call in flight arrive and the call runs to its end, writing into the
  state as it is then. Nothing compares the coin of the call with \<open>selectedCoin\<close>.
\<close>

definition complete_call :: "string \<Rightarrow> replies \<Rightarrow> clock \<Rightarrow> dashboard \<Rightarrow> dashboard" where
  "complete_call coin r now st =
     (if (task_of r, coin) \<in> set (running st) then
        (let st1 = st\<lparr>running := remove1 (task_of r, coin) (running st)\<rparr>
         in case r of
              DataReplies d \<Rightarrow> refreshAllData coin now d st1
            | ForecastReplies f \<Rightarrow> refreshForecastData f st1
            | CandleReplies c \<Rightarrow> fetchCandleData now c st1
            | MinIOReplies m \<Rightarrow> fetchMinIOData coin now (minio_reply m) (fallback m) st1)
      else st)"

datatype event =
    Mount clock
  | SwitchCoin string clock
  | Tick task clock
  | Complete string replies clock

fun step :: "event \<Rightarrow> dashboard \<Rightarrow> dashboard" where
  "step (Mount now) st = mount now st"
| "step (SwitchCoin coin now) st = switchCoin coin now st"
| "step (Tick t now) st = tick t now st"
| "step (Complete coin r now) st = complete_call coin r now st"

definition run :: "event list \<Rightarrow> dashboard \<Rightarrow> dashboard" where
  "run es st = fold step es st"

section \<open>Inputs for the examples\<close>

definition all_votes :: "string \<Rightarrow> trading_signals" where
  "all_votes v = \<lparr> signals = Some \<lparr> rsi_signal = v, macd_signal = v,
                     moving_average_signal = v, bollinger_signal = v \<rparr> \<rparr>"

definition news_of :: "nat \<Rightarrow> nat \<Rightarrow> nat \<Rightarrow> nat \<Rightarrow> news_data" where
  "news_of t p n u = \<lparr> total_articles = t,
      summary = \<lparr> positive_count = p, negative_count = n, neutral_count = u \<rparr> \<rparr>"

definition forecast_of :: "int \<Rightarrow> real \<Rightarrow> forecast_data" where
  "forecast_of m p = \<lparr> predictions = Some [\<lparr> minutes_ahead = m, predicted_price = p \<rparr>],
      data_error = False \<rparr>"

definition priced :: "real \<Rightarrow> crypto_data" where
  "priced p = \<lparr> c_id = ''bitcoin'', c_symbol = ''btc'', c_name = ''Bitcoin'',
      current_price = p, market_cap = 0, total_volume = 0,
      price_change_percentage_1h_in_currency = 0,
      price_change_percentage_24h_in_currency = 0,
      price_change_percentage_7d_in_currency = 0,
      high_24h = p, low_24h = p, last_updated = [] \<rparr>"

definition one_vote :: "string \<Rightarrow> trading_signals" where
  "one_vote v = \<lparr> signals = Some \<lparr> rsi_signal = v, macd_signal = ''HOLD'',
                     moving_average_signal = ''HOLD'', bollinger_signal = ''HOLD'' \<rparr> \<rparr>"

definition at_time :: "int \<Rightarrow> nat \<Rightarrow> nat \<Rightarrow> nat \<Rightarrow> nat \<Rightarrow> nat \<Rightarrow> clock" where
  "at_time y m d h mi s =
     \<lparr> year = y, month = m, dayOfMonth = d, hours = h, minutes = mi, seconds = s \<rparr>"

text \<open>A state whose candle data was fetched at the time \<open>t\<close>.\<close>

definition fetched_on :: "clock \<Rightarrow> dashboard" where
  "fetched_on t =
     initial\<lparr>candleData := Some \<lparr> fetched_at = Some t, data_points = 365 \<rparr>,
             lastCandleFetchDate := toDateString t\<rparr>"

text \<open>
  Replies of the crypto endpoint: a coin with a price, a market capitalisation and a
  time stamp, a reply that carries a list of points, and a pass in which bitcoin and
  ethereum answer with two points each, tether with a single point and every other
  fetch fails.
\<close>

definition pt :: "string \<Rightarrow> real \<Rightarrow> real \<Rightarrow> int \<Rightarrow> point" where
  "pt c p m t =
     \<lparr> p_id = c, p_symbol = c, p_name = c, price_usd = p, p_market_cap = m, volume_24h = 0,
       price_change_1h = 0, price_change_24h = 0, price_change_7d = 0, p_high_24h = p,
       p_low_24h = p, p_last_updated = [], timestamp = t \<rparr>"

definition answers :: "'d \<Rightarrow> 'd reply" where
  "answers d = Returns \<lparr> ok = True, json = Returns \<lparr> success = True, data = Some d \<rparr> \<rparr>"

definition two_coins :: "string \<Rightarrow> point list reply" where
  "two_coins coinId =
     (if coinId = ''bitcoin'' then answers [pt ''bitcoin'' 100 1000 1, pt ''bitcoin'' 110 1100 2]
      else if coinId = ''ethereum'' then answers [pt ''ethereum'' 10 2000 1, pt ''ethereum'' 9 1800 2]
      else if coinId = ''tether'' then answers [pt ''tether'' 1 500 1]
      else Throws)"

definition entry :: "string \<Rightarrow> real \<Rightarrow> real \<Rightarrow> real \<Rightarrow> treemap_coin" where
  "entry c m p ch =
     \<lparr> t_id = c, t_symbol = c, t_name = c, t_market_cap = m, t_current_price = p,
       price_change_percentage_24h = Fin ch, t_last_updated = [] \<rparr>"

definition no_answer :: "string \<Rightarrow> point list reply" where
  "no_answer coinId = Throws"

text \<open>
  Three moments of one day, a state that holds a forecast, and the replies of a candle
  fetch that succeeds with the data \<open>d\<close> and the signals \<open>s\<close>.
\<close>

definition t0 :: clock where "t0 = at_time 2026 10 2 9 0 0"
definition t1 :: clock where "t1 = at_time 2026 10 2 9 1 0"
definition t2 :: clock where "t2 = at_time 2026 10 2 9 1 5"

definition with_forecast :: dashboard where
  "with_forecast = initial\<lparr>forecastData := Some (forecast_of 60 110)\<rparr>"

definition candles_ok :: "candle_data \<Rightarrow> trading_signals \<Rightarrow> candle_replies" where
  "candles_ok d s = \<lparr> update = answers (), indicators = answers d, signals_reply = answers s \<rparr>"

definition candles_of_day :: "nat \<Rightarrow> candle_data" where
  "candles_of_day n = \<lparr> fetched_at = Some t0, data_points = n \<rparr>"

text \<open>
  The replies of a candle fetch whose update and indicators succeed and whose signals
  fetch throws.
\<close>

definition signals_fail :: "candle_data \<Rightarrow> candle_replies" where
  "signals_fail d = \<lparr> update = answers (), indicators = answers d, signals_reply = Throws \<rparr>"

definition forecast_fails :: forecast_replies where
  "forecast_fails = \<lparr> from_minio = Throws, generate = Throws \<rparr>"

section \<open>Properties of the binary64 rounding\<close>

text \<open>
  The exponent brackets its argument, and rounding is monotone. With the values of
  \<open>rd\<close> at the constants of the engine this bounds every rounded result.
\<close>

lemma rne_lower: "\<lfloor>x\<rfloor> \<le> rne x"
  by (simp add: rne_def Let_def)

lemma rne_upper: "rne x \<le> \<lfloor>x\<rfloor> + 1"
  by (simp add: rne_def Let_def)

lemma rne_of_int [simp]: "rne (of_int n) = n"
  by (simp add: rne_def Let_def)

lemma rne_numeral [simp]: "rne (numeral n) = numeral n"
  using rne_of_int[of "numeral n"] by simp

lemma rne_mono:
  assumes "x \<le> y"
  shows "rne x \<le> rne y"
proof (cases "\<lfloor>x\<rfloor> = \<lfloor>y\<rfloor>")
  case False
  with assms have "\<lfloor>x\<rfloor> < \<lfloor>y\<rfloor>"
    using floor_mono[OF assms] by linarith
  then have "rne x \<le> \<lfloor>y\<rfloor>" using rne_upper[of x] by linarith
  then show ?thesis using rne_lower[of y] by linarith
next
  case True
  with assms show ?thesis
    by (auto simp: rne_def Let_def)
qed

lemma rne_nonneg: "0 \<le> x \<Longrightarrow> 0 \<le> rne x"
  using rne_mono[of 0 x] rne_of_int[of 0] by simp

lemma bits_bounds:
  "0 < n \<Longrightarrow> 2 ^ (bits n - 1) \<le> n \<and> n < 2 ^ bits n"
proof (induction n rule: bits.induct)
  case (1 n)
  show ?case
  proof (cases "n div 2 = 0")
    case True
    with 1(2) have "n = 1" by presburger
    then show ?thesis by (simp add: bits.simps)
  next
    case False
    then have pos: "0 < n div 2" by simp
    have n0: "n \<noteq> 0" using 1(2) by simp
    from 1(1)[OF n0 pos] have ih: "2 ^ (bits (n div 2) - 1) \<le> n div 2" "n div 2 < 2 ^ bits (n div 2)"
      by simp_all
    have b: "bits n = Suc (bits (n div 2))" using n0 by (simp add: bits.simps)
    have bpos: "0 < bits (n div 2)" using pos by (simp add: bits.simps)
    then obtain k where k: "bits (n div 2) = Suc k" by (cases "bits (n div 2)") auto
    have "2 * 2 ^ k \<le> 2 * (n div 2)" using ih(1) k by simp
    also have "\<dots> \<le> n" by simp
    finally have lo: "2 ^ (bits n - 1) \<le> n" using b k by simp
    have "n < 2 * (n div 2) + 2" by presburger
    also have "\<dots> \<le> 2 * 2 ^ bits (n div 2)" using ih(2) by simp
    finally have hi: "n < 2 ^ bits n" using b by simp
    show ?thesis using lo hi by simp
  qed
qed

lemma expo_bounds:
  assumes "x \<noteq> 0"
  shows "2 powi expo x \<le> \<bar>x\<bar>" and "\<bar>x\<bar> < 2 powi (expo x + 1)"
proof -
  have "2 powi expo x \<le> \<bar>x\<bar> \<and> \<bar>x\<bar> < 2 powi (expo x + 1)"
  proof (cases "1 \<le> \<bar>x\<bar>")
    case True
    define n where "n = nat \<lfloor>\<bar>x\<bar>\<rfloor>"
    have npos: "0 < n" using True by (simp add: n_def)
    have e: "expo x = int (bits n) - 1" using True by (simp add: expo_def n_def)
    have bpos: "0 < bits n" using npos by (simp add: bits.simps)
    from bits_bounds[OF npos] have lo: "2 ^ (bits n - 1) \<le> n" and hi: "n < 2 ^ bits n" by simp_all
    have nx: "real n \<le> \<bar>x\<bar>" "\<bar>x\<bar> < real n + 1"
      using True by (simp_all add: n_def)
    have e1: "expo x = int (bits n - 1)" using e bpos by simp
    have "(2::real) powi expo x = 2 ^ (bits n - 1)" by (simp add: e1)
    also have "\<dots> \<le> real n" using lo by (metis of_nat_le_iff of_nat_numeral of_nat_power)
    finally have A: "2 powi expo x \<le> \<bar>x\<bar>" using nx by linarith
    have "expo x + 1 = int (bits n)" using e by simp
    then have "(2::real) powi (expo x + 1) = 2 ^ bits n" by simp
    moreover have "real n + 1 \<le> 2 ^ bits n"
    proof -
      have "n + 1 \<le> 2 ^ bits n" using hi by simp
      then have "real (n + 1) \<le> real (2 ^ bits n)" by (rule of_nat_mono)
      then show ?thesis by simp
    qed
    ultimately have B: "\<bar>x\<bar> < 2 powi (expo x + 1)" using nx by linarith
    show ?thesis using A B by simp
  next
    case False
    define a where "a = \<bar>x\<bar>"
    have a: "0 < a" "a < 1" using assms False by (simp_all add: a_def)
    define c where "c = \<lceil>1 / a\<rceil>"
    have r1: "1 < 1 / a" using a by simp
    then have c2: "2 \<le> c" unfolding c_def by linarith
    define m where "m = nat (c - 1)"
    have mpos: "0 < m" using c2 by (simp add: m_def)
    have e: "expo x = - int (bits m)" using False by (simp add: expo_def m_def c_def a_def)
    from bits_bounds[OF mpos] have lo: "2 ^ (bits m - 1) \<le> m" and hi: "m < 2 ^ bits m" by simp_all
    have bpos: "0 < bits m" using mpos by (simp add: bits.simps)
    have mc: "real m = of_int c - 1" using c2 by (simp add: m_def)
    have cr: "1 / a \<le> of_int c" "of_int c - 1 < 1 / a"
      unfolding c_def by linarith+
    have "real m + 1 \<le> 2 ^ bits m"
    proof -
      have "m + 1 \<le> 2 ^ bits m" using hi by simp
      then have "real (m + 1) \<le> real (2 ^ bits m)" by (rule of_nat_mono)
      then show ?thesis by simp
    qed
    then have up: "1 / a \<le> 2 ^ bits m" using cr mc by linarith
    have "(2::real) ^ (bits m - 1) \<le> real m"
      using lo by (metis of_nat_le_iff of_nat_numeral of_nat_power)
    then have low: "2 ^ (bits m - 1) < 1 / a" using cr mc by linarith
    have A: "2 powi expo x \<le> a"
    proof -
      have "1 \<le> a * 2 ^ bits m" using up a by (simp add: field_simps)
      then have "1 / 2 ^ bits m \<le> a" by (simp add: field_simps)
      then show ?thesis by (simp add: e power_int_minus field_simps)
    qed
    have B: "a < 2 powi (expo x + 1)"
    proof -
      have "a * 2 ^ (bits m - 1) < 1" using low a by (simp add: field_simps)
      then have "a < 1 / 2 ^ (bits m - 1)" by (simp add: field_simps)
      moreover have "expo x + 1 = - int (bits m - 1)" using e bpos by simp
      ultimately show ?thesis by (simp add: power_int_minus field_simps)
    qed
    show ?thesis using A B by (simp add: a_def)
  qed
  then show "2 powi expo x \<le> \<bar>x\<bar>" and "\<bar>x\<bar> < 2 powi (expo x + 1)" by simp_all
qed


lemma two_powi_mono: "a \<le> b \<Longrightarrow> (2::real) powi a \<le> 2 powi b"
  by (rule power_int_increasing) simp_all

lemma two_powi_less_D: "(2::real) powi a < 2 powi b \<Longrightarrow> a < b"
  using two_powi_mono[of b a] by (cases "a < b") auto

lemma ulp_scale_53: "2 ^ 53 * (2::real) powi (e - 52) = 2 powi (e + 1)"
proof -
  have "(2::real) powi (53 + (e - 52)) = 2 powi 53 * 2 powi (e - 52)"
    by (rule power_int_add) simp
  moreover have "53 + (e - 52) = e + 1" by simp
  ultimately show ?thesis by simp
qed

lemma ulp_scale_52: "2 ^ 52 * (2::real) powi (e - 52) = 2 powi e"
proof -
  have "(2::real) powi (52 + (e - 52)) = 2 powi 52 * 2 powi (e - 52)"
    by (rule power_int_add) simp
  moreover have "52 + (e - 52) = e" by simp
  ultimately show ?thesis by simp
qed

lemma ulp_div_53: "(2::real) powi (e + 1) / 2 powi (e - 52) = 2 ^ 53"
  using ulp_scale_53[of e] by (simp add: field_simps)

lemma ulp_div_52: "(2::real) powi e / 2 powi (e - 52) = 2 ^ 52"
  using ulp_scale_52[of e] by (simp add: field_simps)

lemma expo_unique:
  assumes "2 powi e \<le> \<bar>x\<bar>" "\<bar>x\<bar> < 2 powi (e + 1)"
  shows "expo x = e"
proof -
  have x0: "x \<noteq> 0" using assms(1) by (smt (verit) zero_less_power_int abs_zero)
  note b = expo_bounds[OF x0]
  have "(2::real) powi e < 2 powi (expo x + 1)" using assms(1) b(2) by linarith
  then have 1: "e < expo x + 1" by (rule two_powi_less_D)
  have "(2::real) powi expo x < 2 powi (e + 1)" using assms(2) b(1) by linarith
  then have 2: "expo x < e + 1" by (rule two_powi_less_D)
  show ?thesis using 1 2 by simp
qed

lemma expo_mono:
  assumes "0 < x" "x \<le> y"
  shows "expo x \<le> expo y"
proof -
  have "(2::real) powi expo x \<le> \<bar>x\<bar>" using expo_bounds(1)[of x] assms by simp
  also have "\<dots> \<le> \<bar>y\<bar>" using assms by simp
  also have "\<dots> < 2 powi (expo y + 1)" using expo_bounds(2)[of y] assms by simp
  finally have "expo x < expo y + 1" by (rule two_powi_less_D)
  then show ?thesis by simp
qed

lemma ulp_pos: "0 < ulp x"
  by (simp add: ulp_def)

lemma rd_0 [simp]: "rd 0 = 0"
  by (simp add: rd_def)

lemma rd_minus: "rd (- x) = - rd x"
  by (simp add: rd_def ulp_def expo_def sgn_minus)

lemma rd_pos: "0 < x \<Longrightarrow> rd x = of_int (rne (x / ulp x)) * ulp x"
  by (simp add: rd_def)

lemma rd_nonneg: "0 \<le> x \<Longrightarrow> 0 \<le> rd x"
  using ulp_pos[of x] by (auto simp: rd_def sgn_if intro!: mult_nonneg_nonneg rne_nonneg)

lemma rd_mono_pos:
  assumes "0 < x" "x \<le> y"
  shows "rd x \<le> rd y"
proof -
  have y: "0 < y" using assms by simp
  define ex where "ex = max (expo x) (- 1022)"
  define ey where "ey = max (expo y) (- 1022)"
  have ux: "ulp x = 2 powi (ex - 52)" and uy: "ulp y = 2 powi (ey - 52)"
    by (simp_all add: ulp_def ex_def ey_def)
  have le: "ex \<le> ey" using expo_mono[OF assms] by (simp add: ex_def ey_def)
  show ?thesis
  proof (cases "ex = ey")
    case True
    then have u: "ulp x = ulp y" by (simp add: ux uy)
    have "x / ulp y \<le> y / ulp y" using assms ulp_pos[of y] by (simp add: divide_right_mono)
    then have "rne (x / ulp y) \<le> rne (y / ulp y)" by (rule rne_mono)
    then have "real_of_int (rne (x / ulp y)) * ulp y \<le> real_of_int (rne (y / ulp y)) * ulp y"
      using ulp_pos[of y] by (simp add: mult_right_mono)
    then show ?thesis using assms y by (simp add: rd_pos u)
  next
    case False
    then have lt: "ex < ey" using le by simp
    then have eyy: "ey = expo y" unfolding ey_def ex_def by linarith
    have "x < 2 powi (expo x + 1)" using expo_bounds(2)[of x] assms by simp
    also have "\<dots> \<le> 2 powi (ex + 1)" by (rule two_powi_mono) (simp add: ex_def)
    finally have xb: "x < 2 powi (ex + 1)" .
    have "x / ulp x \<le> 2 powi (ex + 1) / 2 powi (ex - 52)"
      using xb by (simp add: ux divide_right_mono)
    then have "x / ulp x \<le> of_int (2 ^ 53)" by (simp only: ulp_div_53) simp
    then have "rne (x / ulp x) \<le> rne (of_int (2 ^ 53))" by (rule rne_mono)
    then have "rne (x / ulp x) \<le> 2 ^ 53" by (simp only: rne_of_int)
    then have "real_of_int (rne (x / ulp x)) \<le> real_of_int (2 ^ 53)" by (simp only: of_int_le_iff)
    then have "real_of_int (rne (x / ulp x)) \<le> 2 ^ 53" by simp
    then have "real_of_int (rne (x / ulp x)) * ulp x \<le> 2 ^ 53 * ulp x"
      using ulp_pos[of x] by (simp add: mult_right_mono)
    also have "\<dots> = 2 powi (ex + 1)" by (simp only: ux ulp_scale_53)
    also have "\<dots> \<le> 2 powi ey" using lt by (intro two_powi_mono) simp
    finally have A: "rd x \<le> 2 powi ey" using assms by (simp add: rd_pos)
    have "2 powi ey \<le> y" using expo_bounds(1)[of y] y by (simp add: eyy)
    then have "2 powi ey / 2 powi (ey - 52) \<le> y / ulp y"
      by (simp add: uy divide_right_mono)
    then have "of_int (2 ^ 52) \<le> y / ulp y" by (simp only: ulp_div_52) simp
    then have "rne (of_int (2 ^ 52)) \<le> rne (y / ulp y)" by (rule rne_mono)
    then have "2 ^ 52 \<le> rne (y / ulp y)" by (simp only: rne_of_int)
    then have "real_of_int (2 ^ 52) \<le> real_of_int (rne (y / ulp y))" by (simp only: of_int_le_iff)
    then have "2 ^ 52 \<le> real_of_int (rne (y / ulp y))" by simp
    then have "2 ^ 52 * ulp y \<le> real_of_int (rne (y / ulp y)) * ulp y"
      using ulp_pos[of y] by (simp add: mult_right_mono)
    moreover have "2 ^ 52 * ulp y = 2 powi ey" by (simp only: uy ulp_scale_52)
    ultimately have B: "2 powi ey \<le> rd y" using y by (simp add: rd_pos)
    show ?thesis using A B by linarith
  qed
qed

lemma rd_mono:
  assumes "x \<le> y"
  shows "rd x \<le> rd y"
proof -
  consider "0 < x" | "x \<le> 0" "0 \<le> y" | "y < 0" by linarith
  then show ?thesis
  proof cases
    case 1
    then show ?thesis using assms by (rule rd_mono_pos)
  next
    case 2
    have "rd x \<le> 0" using rd_nonneg[of "- x"] 2(1) by (simp add: rd_minus)
    moreover have "0 \<le> rd y" using 2(2) by (rule rd_nonneg)
    ultimately show ?thesis by linarith
  next
    case 3
    have "rd (- y) \<le> rd (- x)" using 3 assms by (intro rd_mono_pos) simp_all
    then show ?thesis by (simp add: rd_minus)
  qed
qed

lemma fl_between:
  assumes "lo \<le> x" "x \<le> hi" "- (2 ^ 1024) < rd lo" "rd hi < 2 ^ 1024"
  shows "between (rd lo) (rd hi) (fl x)"
proof -
  have "rd lo \<le> rd x" "rd x \<le> rd hi" using assms(1,2) by (simp_all add: rd_mono)
  then show ?thesis using assms(3,4) by (simp add: fl_def)
qed

lemma betweenE:
  assumes "between lo hi x"
  obtains a where "x = Fin a" "lo \<le> a" "a \<le> hi"
  using assms by (cases x) auto

lemmas rd_eval = rd_def ulp_def expo_def rne_def bits.simps

lemma rd_consts:
  "rd 1 = 1" "rd 20 = 20" "rd 25 = 25" "rd 30 = 30" "rd 40 = 40" "rd 50 = 50" "rd 60 = 60"
  "rd 70 = 70" "rd 75 = 75" "rd 80 = 80" "rd 100 = 100" "rd 0 = 0" "rd 95 = 95" "rd (- 1) = - 1" "rd (- 20) = - 20"
  "rd (- 25) = - 25" "rd (- 30) = - 30"
  by (simp_all add: rd_eval)

lemma weights:
  "lit (3 / 10) = Fin (5404319552844595 / 18014398509481984)"
  "lit (4 / 10) = Fin (3602879701896397 / 9007199254740992)"
  "lit (6 / 10) = Fin (5404319552844595 / 9007199254740992)"
  by (simp_all add: lit_def fl_def rd_eval)

lemma weights_reduced:
  "lit (2 / 5) = Fin (3602879701896397 / 9007199254740992)"
  "lit (3 / 5) = Fin (5404319552844595 / 9007199254740992)"
  by (simp_all add: lit_def fl_def rd_eval)

lemmas engine_eval =
  newsScore64_def technicalScore_def forecastScore_def forecastBand_def changePercent_def
  bullishSignals_def bearishSignals_def all_votes_def one_vote_def news_of_def forecast_of_def
  priced_def Let_def ngt_def nge_def nle_def fsub_def Math_min_def Math_max_def weights weights_reduced fl_def
  rd_eval

section \<open>Bounds of the scores and of the confidence\<close>

lemma between_round:
  "between (of_int lo) (of_int hi) x \<Longrightarrow> between (of_int lo) (of_int hi) (Math_round x)"
  by (cases x) (auto simp: le_floor_iff floor_le_iff; linarith)+

lemma between_round_100: "between 0 100 x \<Longrightarrow> between 0 100 (Math_round x)"
  using between_round[of 0 100 x] by simp

lemma between_round_95: "between 0 95 x \<Longrightarrow> between 0 95 (Math_round x)"
  using between_round[of 0 95 x] by simp

lemma between_weaken:
  "between lo hi x \<Longrightarrow> lo' \<le> lo \<Longrightarrow> hi \<le> hi' \<Longrightarrow> between lo' hi' x"
  by (cases x) auto

lemma fl_in:
  assumes "lo \<le> x" "x \<le> hi" "rd lo = lo" "rd hi = hi" "- (2 ^ 1024) < lo" "hi < 2 ^ 1024"
    "L \<le> lo" "hi \<le> H"
  shows "between L H (fl x)"
proof -
  have "between (rd lo) (rd hi) (fl x)"
    using assms(1,2,5,6) by (intro fl_between) (simp_all add: assms(3,4))
  then show ?thesis using assms(7,8) by (simp add: assms(3,4) between_weaken)
qed

lemma ratio_between:
  assumes "0 < t" "c \<le> t"
  shows "between 0 1 (fdiv (Fin (real c)) (Fin (real t)))"
proof -
  have "0 \<le> real c / real t" "real c / real t \<le> 1" using assms by simp_all
  then have "between (rd 0) (rd 1) (fl (real c / real t))"
    by (rule fl_between) (simp_all add: rd_consts)
  then show ?thesis using assms by (simp add: rd_consts)
qed

lemma scale_between:
  assumes "between 0 1 x"
  shows "between 0 25 (fmul x (Fin 25))"
proof -
  from assms obtain a where a: "x = Fin a" "0 \<le> a" "a \<le> 1" by (rule betweenE)
  have "between (rd 0) (rd 25) (fl (a * 25))"
    using a by (intro fl_between) (simp_all add: rd_consts)
  then show ?thesis by (simp add: a rd_consts)
qed

lemma strongly_positive_between:
  assumes "between 0 1 x"
  shows "between 0 100 (fadd (Fin 75) (fmul x (Fin 25)))"
proof -
  from scale_between[OF assms] obtain y where y: "fmul x (Fin 25) = Fin y" "0 \<le> y" "y \<le> 25"
    by (rule betweenE)
  have "between 0 100 (fl (75 + y))"
    using y by (intro fl_in[where lo=75 and hi=100]) (simp_all add: rd_consts)
  then show ?thesis by (simp add: y)
qed

lemma strongly_negative_between:
  assumes "between 0 1 x"
  shows "between 0 100 (fsub (Fin 25) (fmul x (Fin 25)))"
proof -
  from scale_between[OF assms] obtain y where y: "fmul x (Fin 25) = Fin y" "0 \<le> y" "y \<le> 25"
    by (rule betweenE)
  have "between 0 100 (fl (25 + - y))"
    using y by (intro fl_in[where lo=0 and hi=25]) (simp_all add: rd_consts)
  then show ?thesis by (simp add: y fsub_def)
qed

lemma mixed_between:
  assumes "between 0 1 x" "between 0 1 y"
  shows "between 0 100 (fadd (Fin 40) (fmul (fsub x y) (Fin 20)))"
proof -
  from assms(1) obtain a where a: "x = Fin a" "0 \<le> a" "a \<le> 1" by (rule betweenE)
  from assms(2) obtain b where b: "y = Fin b" "0 \<le> b" "b \<le> 1" by (rule betweenE)
  have "between (rd (- 1)) (rd 1) (fl (a + - b))"
    using a b by (intro fl_between) (simp_all add: rd_consts)
  then have "between (- 1) 1 (fsub x y)" by (simp add: a b fsub_def rd_consts)
  then obtain d where d: "fsub x y = Fin d" "- 1 \<le> d" "d \<le> 1" by (rule betweenE)
  have "between (rd (- 20)) (rd 20) (fl (d * 20))"
    using d by (intro fl_between) (simp_all add: rd_consts)
  then have "between (- 20) 20 (fmul (fsub x y) (Fin 20))" by (simp add: d rd_consts)
  then obtain e where e: "fmul (fsub x y) (Fin 20) = Fin e" "- 20 \<le> e" "e \<le> 20"
    by (rule betweenE)
  have "between 0 100 (fl (40 + e))"
    using e by (intro fl_in[where lo=20 and hi=60]) (simp_all add: rd_consts)
  then show ?thesis by (simp add: e)
qed

lemma news_range:
  assumes "\<And>d. nd = Some d \<Longrightarrow>
             positive_count (summary d) \<le> total_articles d \<and>
             negative_count (summary d) \<le> total_articles d"
  shows "between 0 100 (fst (newsScore64 nd))"
proof (cases nd)
  case None
  then show ?thesis by (simp add: newsScore64_def)
next
  case (Some d)
  show ?thesis
  proof (cases "0 < total_articles d")
    case False
    then show ?thesis using Some by (simp add: newsScore64_def)
  next
    case True
    have p: "between 0 1 (fdiv (Fin (real (positive_count (summary d)))) (Fin (real (total_articles d))))"
      using True assms[OF Some] by (intro ratio_between) simp_all
    have n: "between 0 1 (fdiv (Fin (real (negative_count (summary d)))) (Fin (real (total_articles d))))"
      using True assms[OF Some] by (intro ratio_between) simp_all
    show ?thesis
      using Some True strongly_positive_between[OF p] strongly_negative_between[OF n]
        mixed_between[OF p n]
      by (simp add: newsScore64_def Let_def del: fdiv.simps fadd.simps fmul.simps)
  qed
qed

lemma technical_range: "between 0 100 (fst (technicalScore ts))"
proof (cases ts)
  case None
  then show ?thesis by (simp add: technicalScore_def)
next
  case (Some x)
  show ?thesis
  proof (cases "signals x")
    case None
    then show ?thesis using Some by (simp add: technicalScore_def)
  next
    case (Some s)
    show ?thesis
    proof (cases "0 < bullishSignals s + bearishSignals s")
      case True
      have "between 0 1 (fdiv (Fin (real (bullishSignals s)))
                              (Fin (real (bullishSignals s + bearishSignals s))))"
        using True by (intro ratio_between) simp_all
      then obtain a where a: "fdiv (Fin (real (bullishSignals s)))
                                   (Fin (real (bullishSignals s + bearishSignals s))) = Fin a"
        "0 \<le> a" "a \<le> 1" by (rule betweenE)
      have "between (rd 0) (rd 100) (fl (a * 100))"
        using a by (intro fl_between) (simp_all add: rd_consts)
      then have "between 0 100 (fmul (Fin a) (Fin 100))" by (simp add: rd_consts)
      moreover have "fst (technicalScore ts) = fmul (Fin a) (Fin 100)"
        using \<open>ts = Some x\<close> Some True a(1)
        by (simp add: technicalScore_def Let_def del: fdiv.simps fmul.simps of_nat_add)
      ultimately show ?thesis by simp
    next
      case False
      then show ?thesis using \<open>ts = Some x\<close> Some by (simp add: technicalScore_def Let_def)
    qed
  qed
qed

lemma forecastBand_range:
  assumes "cp \<noteq> NaN"
  shows "between 0 100 (fst (forecastBand cp))"
proof (cases cp)
  case (Fin a)
  consider "5 < a" | "a < - 5" | "- 5 \<le> a" "a \<le> 5" by linarith
  then show ?thesis
  proof cases
    case 1
    have "between 0 100 (fl (75 + min a 25))"
      using 1 by (intro fl_in[where lo=75 and hi=100]) (simp_all add: rd_consts)
    moreover have "fst (forecastBand cp) = fl (75 + min a 25)"
      using 1 by (simp add: Fin forecastBand_def ngt_def Math_min_def min_def)
    ultimately show ?thesis by simp
  next
    case 2
    have "between 0 100 (fl (25 + max a (- 25)))"
      using 2 by (intro fl_in[where lo=0 and hi=25]) (simp_all add: rd_consts)
    moreover have "fst (forecastBand cp) = fl (25 + max a (- 25))"
      using 2 by (simp add: Fin forecastBand_def ngt_def Math_max_def max_def)
    ultimately show ?thesis by simp
  next
    case 3
    have "between (- 25) 25 (fl (a * 5))"
      using 3 by (intro fl_in[where lo="- 25" and hi=25]) (simp_all add: rd_consts)
    then obtain y where y: "fl (a * 5) = Fin y" "- 25 \<le> y" "y \<le> 25"
      by (rule betweenE)
    have "between 0 100 (fl (50 + y))"
      using y by (intro fl_in[where lo=25 and hi=75]) (simp_all add: rd_consts)
    moreover have "fst (forecastBand cp) = fl (50 + y)"
      using 3 y by (simp add: Fin forecastBand_def ngt_def)
    ultimately show ?thesis by simp
  qed
next
  case PosInf
  then show ?thesis by (simp add: forecastBand_def ngt_def Math_min_def fl_def rd_consts)
next
  case NegInf
  then show ?thesis by (simp add: forecastBand_def ngt_def Math_max_def fl_def rd_consts)
next
  case NaN
  then show ?thesis using assms by simp
qed

lemma fl_not_NaN [simp]: "fl x \<noteq> NaN"
  by (simp add: fl_def)

lemma fmul_100_not_NaN: "x \<noteq> NaN \<Longrightarrow> fmul x (Fin 100) \<noteq> NaN"
  by (cases x) simp_all

lemma changePercent_defined: "c \<noteq> 0 \<Longrightarrow> changePercent p c \<noteq> NaN"
proof -
  assume c: "c \<noteq> 0"
  have "fsub (Fin p) (Fin c) \<noteq> NaN" by (simp add: fsub_def)
  then have "fdiv (fsub (Fin p) (Fin c)) (Fin c) \<noteq> NaN"
    using c by (cases "fsub (Fin p) (Fin c)") simp_all
  then show ?thesis unfolding changePercent_def by (rule fmul_100_not_NaN)
qed

lemma forecast_range:
  assumes "\<And>c. cd = Some c \<Longrightarrow> current_price c \<noteq> 0"
  shows "between 0 100 (fst (forecastScore fd cd))"
  using assms
  by (auto simp: forecastScore_def forecastBand_range changePercent_defined split: option.splits)

lemma rd_weighted: "rd (90071992547409925 / 2251799813685248) = 40"
  by (simp add: rd_eval)

lemma overall_between:
  assumes "between 0 100 n" "between 0 100 t" "between 0 100 f"
  shows "between 0 100 (overallScore n t f)"
proof -
  from assms(1) obtain a where a: "n = Fin a" "0 \<le> a" "a \<le> 100" by (rule betweenE)
  from assms(2) obtain b where b: "t = Fin b" "0 \<le> b" "b \<le> 100" by (rule betweenE)
  from assms(3) obtain c where c: "f = Fin c" "0 \<le> c" "c \<le> 100" by (rule betweenE)
  let ?w3 = "5404319552844595 / 18014398509481984 :: real"
  let ?w4 = "3602879701896397 / 9007199254740992 :: real"
  have e1: "fmul n (lit (3 / 10)) = fl (a * ?w3)" by (simp only: a weights fmul.simps)
  have e2: "fmul t (lit (4 / 10)) = fl (b * ?w4)" by (simp only: b weights fmul.simps)
  have e3: "fmul f (lit (3 / 10)) = fl (c * ?w3)" by (simp only: c weights fmul.simps)
  have "between 0 30 (fl (a * ?w3))"
    using a by (intro fl_in[where lo=0 and hi=30]) (simp_all add: rd_consts)
  then obtain y1 where y1: "fmul n (lit (3 / 10)) = Fin y1" "0 \<le> y1" "y1 \<le> 30"
    unfolding e1[symmetric] by (rule betweenE)
  have "between (rd 0) (rd (90071992547409925 / 2251799813685248)) (fl (b * ?w4))"
    using b by (intro fl_between) (simp_all add: rd_weighted)
  then have "between 0 40 (fl (b * ?w4))" by (simp add: rd_weighted)
  then obtain y2 where y2: "fmul t (lit (4 / 10)) = Fin y2" "0 \<le> y2" "y2 \<le> 40"
    unfolding e2[symmetric] by (rule betweenE)
  have "between 0 30 (fl (c * ?w3))"
    using c by (intro fl_in[where lo=0 and hi=30]) (simp_all add: rd_consts)
  then obtain y3 where y3: "fmul f (lit (3 / 10)) = Fin y3" "0 \<le> y3" "y3 \<le> 30"
    unfolding e3[symmetric] by (rule betweenE)
  have "between 0 70 (fl (y1 + y2))"
    using y1 y2 by (intro fl_in[where lo=0 and hi=70]) (simp_all add: rd_consts)
  then obtain s where s: "fl (y1 + y2) = Fin s" "0 \<le> s" "s \<le> 70" by (rule betweenE)
  have "between 0 100 (fl (s + y3))"
    using s y3 by (intro fl_in[where lo=0 and hi=100]) (simp_all add: rd_consts)
  moreover have "overallScore n t f = fl (s + y3)"
    unfolding overallScore_def by (simp only: y1 y2 y3 fadd.simps s)
  ultimately show ?thesis by simp
qed

lemma decide_between:
  assumes "between 0 100 overall"
  shows "between 0 95 (snd (decide overall))"
proof -
  from assms obtain x where x: "overall = Fin x" "0 \<le> x" "x \<le> 100" by (rule betweenE)
  consider "70 \<le> x" | "x \<le> 30" | "30 < x" "x < 70" by linarith
  then show ?thesis
  proof cases
    case 1
    then show ?thesis using x by (simp add: decide_def nge_def nle_def Math_min_def)
  next
    case 2
    have "between 70 100 (fl (100 + - x))"
      using 2 x by (intro fl_in[where lo=70 and hi=100]) (simp_all add: rd_consts)
    then obtain y where y: "fl (100 + - x) = Fin y" "70 \<le> y" "y \<le> 100" by (rule betweenE)
    show ?thesis using 2 x y
      by (simp add: decide_def nge_def nle_def Math_min_def fsub_def)
  next
    case 3
    have "between (- 20) 20 (fl (50 + - x))"
      using 3 by (intro fl_in[where lo="- 20" and hi=20]) (simp_all add: rd_consts)
    then obtain y where y: "fl (50 + - x) = Fin y" "- 20 \<le> y" "y \<le> 20" by (rule betweenE)
    have "between 0 95 (fl (\<bar>y\<bar> * 2))"
      using y by (intro fl_in[where lo=0 and hi=40]) (simp_all add: rd_consts)
    then show ?thesis using 3 x y
      by (simp add: decide_def nge_def nle_def fsub_def)
  qed
qed

lemma calc_fields:
  "action (calculateRecommendation nd ts fd cd) =
     fst (decide (overallScore (fst (newsScore64 nd)) (fst (technicalScore ts)) (fst (forecastScore fd cd))))"
  "confidence (calculateRecommendation nd ts fd cd) =
     Math_round (snd (decide (overallScore (fst (newsScore64 nd)) (fst (technicalScore ts)) (fst (forecastScore fd cd)))))"
  "news (breakdown (calculateRecommendation nd ts fd cd)) = Math_round (fst (newsScore64 nd))"
  "technical (breakdown (calculateRecommendation nd ts fd cd)) = Math_round (fst (technicalScore ts))"
  "forecast (breakdown (calculateRecommendation nd ts fd cd)) = Math_round (fst (forecastScore fd cd))"
  "reasoning (calculateRecommendation nd ts fd cd) =
     snd (newsScore64 nd) @ snd (technicalScore ts) @ snd (forecastScore fd cd)"
  by (simp_all add: calculateRecommendation_def Let_def split_beta)

text \<open>
  Claim C1. For every combination of valid inputs, each of the four possibly absent,
  the three sub-scores lie in \<open>[0,100]\<close>, before and after the rounding of the breakdown,
  and the confidence lies in \<open>[0,95]\<close>, so it never reaches 100. Valid means that the
  counts of positive and of negative articles do not exceed the total and that the
  current price is not zero. Every operation is rounded to binary64.
\<close>

theorem recommendation_bounds:
  assumes counts: "\<forall>d. nd = Some d \<longrightarrow>
            positive_count (summary d) \<le> total_articles d \<and>
            negative_count (summary d) \<le> total_articles d"
    and price: "\<forall>c. cd = Some c \<longrightarrow> current_price c \<noteq> 0"
  shows "between 0 100 (fst (newsScore64 nd)) \<and>
         between 0 100 (fst (technicalScore ts)) \<and>
         between 0 100 (fst (forecastScore fd cd)) \<and>
         between 0 100 (news (breakdown (calculateRecommendation nd ts fd cd))) \<and>
         between 0 100 (technical (breakdown (calculateRecommendation nd ts fd cd))) \<and>
         between 0 100 (forecast (breakdown (calculateRecommendation nd ts fd cd))) \<and>
         between 0 95 (confidence (calculateRecommendation nd ts fd cd))"
proof -
  have n: "between 0 100 (fst (newsScore64 nd))" using counts by (intro news_range) blast
  have t: "between 0 100 (fst (technicalScore ts))" by (rule technical_range)
  have f: "between 0 100 (fst (forecastScore fd cd))" using price by (intro forecast_range) blast
  have c: "between 0 95 (snd (decide (overallScore (fst (newsScore64 nd))
             (fst (technicalScore ts)) (fst (forecastScore fd cd)))))"
    by (rule decide_between[OF overall_between[OF n t f]])
  show ?thesis
    using n t f c by (simp add: calc_fields between_round_100 between_round_95)
qed

text \<open>The bounds at an input with all four sources present.\<close>

theorem recommendation_bounds_witness:
  "between 0 100 (news (breakdown (calculateRecommendation (Some (news_of 10 8 1 1))
      (Some (all_votes ''BUY'')) (Some (forecast_of 60 110)) (Some (priced 100))))) \<and>
   between 0 100 (technical (breakdown (calculateRecommendation (Some (news_of 10 8 1 1))
      (Some (all_votes ''BUY'')) (Some (forecast_of 60 110)) (Some (priced 100))))) \<and>
   between 0 100 (forecast (breakdown (calculateRecommendation (Some (news_of 10 8 1 1))
      (Some (all_votes ''BUY'')) (Some (forecast_of 60 110)) (Some (priced 100))))) \<and>
   between 0 95 (confidence (calculateRecommendation (Some (news_of 10 8 1 1))
      (Some (all_votes ''BUY'')) (Some (forecast_of 60 110)) (Some (priced 100))))"
  using recommendation_bounds[of "Some (news_of 10 8 1 1)" "Some (priced 100)"
          "Some (all_votes ''BUY'')" "Some (forecast_of 60 110)"]
  by (simp add: news_of_def priced_def)

text \<open>
  The two hypotheses cannot be dropped, the code has no clamp of its own: three
  positive articles of a total of two give the news score 112.5, and a current price
  and a predicted price that are both zero give a forecast score that is not a number.
\<close>

lemma bounds_need_valid_inputs:
  "fst (newsScore64 (Some (news_of 2 3 0 0))) = Fin (225 / 2) \<and>
   fst (forecastScore (Some (forecast_of 60 0)) (Some (priced 0))) = NaN"
  by (simp add: engine_eval)

section \<open>The action thresholds\<close>

lemma overallScore_Fin:
  "overallScore (Fin a) (Fin b) (Fin c) =
     fadd (fadd (fl (a * (5404319552844595 / 18014398509481984)))
                (fl (b * (3602879701896397 / 9007199254740992))))
          (fl (c * (5404319552844595 / 18014398509481984)))"
  unfolding overallScore_def by (simp only: weights fmul.simps)

lemma decide_Fin:
  "decide (Fin x) =
     (if 70 \<le> x then (BUY, Fin (min x 95))
      else if x \<le> 30 then (SELL, Math_min (fl (100 - x)) (Fin 95))
      else (NEUTRAL, fmul (Math_abs (fl (50 - x))) (Fin 2)))"
  by (simp add: decide_def nge_def nle_def Math_min_def fsub_def min_def)

lemma news64_absent: "fst (newsScore64 None) = Fin 50"
  by (simp add: newsScore64_def)

lemma technical_all_buy: "fst (technicalScore (Some (all_votes ''BUY''))) = Fin 100"
  by (simp add: engine_eval)

lemma technical_one_sell: "fst (technicalScore (Some (one_vote ''SELL''))) = Fin 0"
  by (simp add: engine_eval)

lemma forecast_up_10: "fst (forecastScore (Some (forecast_of 60 110)) (Some (priced 100))) = Fin 85"
  by (simp add: engine_eval)

lemma news_5_of_6:
  "fst (newsScore64 (Some (news_of 6 5 0 1))) = Fin (3371835658513067 / 35184372088832)"
  by (simp add: engine_eval)

lemma forecast_19_of_24:
  "fst (forecastScore (Some (forecast_of 60 19)) (Some (priced 24))) =
     Fin (586406201480533 / 140737488355328)"
  by (simp add: engine_eval)

lemma overall_example: "overallScore (Fin 50) (Fin 100) (Fin 85) = Fin (161 / 2)"
  by (simp add: overallScore_Fin fl_def rd_eval)

lemma overall_above_30:
  "overallScore (Fin (3371835658513067 / 35184372088832)) (Fin 0)
     (Fin (586406201480533 / 140737488355328)) = Fin (8444249301319681 / 281474976710656)"
  by (simp add: overallScore_Fin fl_def rd_eval)

lemma decide_example: "decide (Fin (161 / 2)) = (BUY, Fin (161 / 2))"
  by (simp add: decide_Fin)

lemma decide_above_30:
  "decide (Fin (8444249301319681 / 281474976710656)) =
     (NEUTRAL, Fin (5629499534213119 / 140737488355328))"
  by (simp add: decide_Fin fl_def rd_eval)

text \<open>
  Claim C2. The action and the confidence of the recommendation are those of \<open>decide\<close>
  at the overall score of the three sub-scores, the confidence rounded to an integer.
  The overall score is \<open>news*0.3 + technical*0.4 + forecast*0.3\<close>, computed from left
  to right in binary64 with the binary64 values of \<open>0.3\<close> and \<open>0.4\<close>. At
  \<open>overall \<ge> 70\<close> the action is BUY with confidence \<open>min(overall, 95)\<close>, else at
  \<open>overall \<le> 30\<close> it is SELL with \<open>min(100 - overall, 95)\<close>, else NEUTRAL with
  \<open>|50 - overall| * 2\<close>. With no news, four bullish votes out of four and a forecast
  of +10 percent the sub-scores are 50, 100 and 85, the overall score is 80.5, the
  action BUY and the rounded confidence 81.
\<close>

theorem recommendation_thresholds:
  "action (calculateRecommendation nd ts fd cd) =
     fst (decide (overallScore (fst (newsScore64 nd)) (fst (technicalScore ts))
                               (fst (forecastScore fd cd)))) \<and>
   confidence (calculateRecommendation nd ts fd cd) =
     Math_round (snd (decide (overallScore (fst (newsScore64 nd)) (fst (technicalScore ts))
                                           (fst (forecastScore fd cd))))) \<and>
   lit (3 / 10) = Fin (5404319552844595 / 18014398509481984) \<and>
   lit (4 / 10) = Fin (3602879701896397 / 9007199254740992) \<and>
   overallScore (Fin a) (Fin b) (Fin c) =
     fadd (fadd (fl (a * (5404319552844595 / 18014398509481984)))
                (fl (b * (3602879701896397 / 9007199254740992))))
          (fl (c * (5404319552844595 / 18014398509481984))) \<and>
   decide (Fin x) =
     (if 70 \<le> x then (BUY, Fin (min x 95))
      else if x \<le> 30 then (SELL, Math_min (fl (100 - x)) (Fin 95))
      else (NEUTRAL, fmul (Math_abs (fl (50 - x))) (Fin 2))) \<and>
   fst (newsScore64 None) = Fin 50 \<and>
   fst (technicalScore (Some (all_votes ''BUY''))) = Fin 100 \<and>
   fst (forecastScore (Some (forecast_of 60 110)) (Some (priced 100))) = Fin 85 \<and>
   overallScore (Fin 50) (Fin 100) (Fin 85) = Fin (161 / 2) \<and>
   action (calculateRecommendation None (Some (all_votes ''BUY''))
             (Some (forecast_of 60 110)) (Some (priced 100))) = BUY \<and>
   confidence (calculateRecommendation None (Some (all_votes ''BUY''))
                 (Some (forecast_of 60 110)) (Some (priced 100))) = Fin 81"
proof -
  have act: "action (calculateRecommendation None (Some (all_votes ''BUY''))
               (Some (forecast_of 60 110)) (Some (priced 100))) = BUY"
    by (simp add: calc_fields news64_absent technical_all_buy forecast_up_10 overall_example
          decide_example)
  have conf: "confidence (calculateRecommendation None (Some (all_votes ''BUY''))
               (Some (forecast_of 60 110)) (Some (priced 100))) = Fin 81"
    by (simp add: calc_fields news64_absent technical_all_buy forecast_up_10 overall_example
          decide_example)
  show ?thesis
    by (intro conjI calc_fields(1) calc_fields(2) weights(1) weights(2) overallScore_Fin
          decide_Fin news64_absent technical_all_buy forecast_up_10 overall_example act conf)
qed

text \<open>
  Next to a threshold the last bit decides. With five positive articles out of six,
  one bearish vote, a predicted price of 19 and a current price of 24 the exact value
  of the weighted sum is 30, while the overall score the code computes is
  \<open>30.000000000000004\<close>: the action is NEUTRAL, not SELL, the confidence is
  \<open>39.99999999999999\<close> and its rounding 40.
\<close>

theorem recommendation_thresholds_witness:
  "overallScore (fst (newsScore64 (Some (news_of 6 5 0 1))))
     (fst (technicalScore (Some (one_vote ''SELL''))))
     (fst (forecastScore (Some (forecast_of 60 19)) (Some (priced 24)))) =
     Fin (30 + 1 / 2 ^ 48) \<and>
   action (calculateRecommendation (Some (news_of 6 5 0 1)) (Some (one_vote ''SELL''))
             (Some (forecast_of 60 19)) (Some (priced 24))) = NEUTRAL \<and>
   confidence (calculateRecommendation (Some (news_of 6 5 0 1)) (Some (one_vote ''SELL''))
                 (Some (forecast_of 60 19)) (Some (priced 24))) = Fin 40"
proof -
  note T = recommendation_thresholds[of "Some (news_of 6 5 0 1)" "Some (one_vote ''SELL'')"
          "Some (forecast_of 60 19)" "Some (priced 24)"
          "3371835658513067 / 35184372088832" 0 "586406201480533 / 140737488355328"
          "8444249301319681 / 281474976710656"]
  have ov: "overallScore (fst (newsScore64 (Some (news_of 6 5 0 1))))
     (fst (technicalScore (Some (one_vote ''SELL''))))
     (fst (forecastScore (Some (forecast_of 60 19)) (Some (priced 24)))) =
     Fin (8444249301319681 / 281474976710656)"
    by (simp only: news_5_of_6 technical_one_sell forecast_19_of_24 overall_above_30)
  have v: "Fin (8444249301319681 / 281474976710656) = Fin (30 + 1 / 2 ^ 48)"
    by simp
  from T have "action (calculateRecommendation (Some (news_of 6 5 0 1)) (Some (one_vote ''SELL''))
             (Some (forecast_of 60 19)) (Some (priced 24))) =
     fst (decide (overallScore (fst (newsScore64 (Some (news_of 6 5 0 1))))
       (fst (technicalScore (Some (one_vote ''SELL''))))
       (fst (forecastScore (Some (forecast_of 60 19)) (Some (priced 24))))))"
    by (rule conjunct1)
  then have act: "action (calculateRecommendation (Some (news_of 6 5 0 1)) (Some (one_vote ''SELL''))
             (Some (forecast_of 60 19)) (Some (priced 24))) = NEUTRAL"
    by (simp only: ov decide_above_30 fst_conv)
  from T have "confidence (calculateRecommendation (Some (news_of 6 5 0 1)) (Some (one_vote ''SELL''))
             (Some (forecast_of 60 19)) (Some (priced 24))) =
     Math_round (snd (decide (overallScore (fst (newsScore64 (Some (news_of 6 5 0 1))))
       (fst (technicalScore (Some (one_vote ''SELL''))))
       (fst (forecastScore (Some (forecast_of 60 19)) (Some (priced 24)))))))"
    by (elim conjE)
  then have "confidence (calculateRecommendation (Some (news_of 6 5 0 1)) (Some (one_vote ''SELL''))
             (Some (forecast_of 60 19)) (Some (priced 24))) =
     Math_round (Fin (5629499534213119 / 140737488355328))"
    by (simp only: ov decide_above_30 snd_conv)
  also have "Math_round (Fin (5629499534213119 / 140737488355328)) = Fin 40"
    by simp
  finally have conf: "confidence (calculateRecommendation (Some (news_of 6 5 0 1))
      (Some (one_vote ''SELL'')) (Some (forecast_of 60 19)) (Some (priced 24))) = Fin 40" .
  show ?thesis
    using ov act conf by (simp only: v simp_thms)
qed

section \<open>The rule of the news score\<close>





text \<open>
  The two examples in binary64, as the engine computes them: the rounding of \<open>0.8\<close> and
  of \<open>0.8 * 25\<close> leaves the scores 95 and 5 as they are.
\<close>

lemma news_examples_binary64:
  "fst (newsScore64 (Some (news_of 10 8 1 1))) = Fin 95 \<and>
   fst (newsScore64 (Some (news_of 10 1 8 1))) = Fin 5 \<and>
   newsScore64 None = newsScore None \<and>
   newsScore64 (Some (d\<lparr>total_articles := 0\<rparr>)) = newsScore (Some (d\<lparr>total_articles := 0\<rparr>))"
  by (simp add: engine_eval newsScore_def)

section \<open>The daily checks of the candle data\<close>

lemma stamp_fetchCandleData:
  "lastCandleFetchDate (fetchCandleData t (candles_ok d s) st) = toDateString t"
  "candleData (fetchCandleData t (candles_ok d s) st) = Some d"
  by (simp_all add: fetchCandleData_def fetchIndicators_def fetchSignals_def candles_ok_def
        answers_def fetch_json_def)

text \<open>
  Claim C8. \<open>shouldUpdateCandleData\<close> is true exactly when the candle data is absent or
  the date stamp of its last fetch is not the calendar date (year, month, day of the
  month) of today; the time of day plays no part, so the answer is the same at every
  moment of one day. After a fetch that succeeded at the time \<open>t\<close> the data is stale at
  \<open>now\<close> exactly when \<open>t\<close> and \<open>now\<close> are not on the same calendar date. The check is a
  function of the state and the clock alone and writes nothing, so a repeated call with
  the same inputs gives the same answer.
\<close>

theorem shouldUpdateCandleData_calendar_date:
  "shouldUpdateCandleData st now =
     (candleData st = None \<or>
      lastCandleFetchDate st \<noteq> DateString (year now) (month now) (dayOfMonth now)) \<and>
   shouldUpdateCandleData st (now\<lparr>hours := h, minutes := mi, seconds := s\<rparr>) =
     shouldUpdateCandleData st now \<and>
   shouldUpdateCandleData (fetchCandleData t (candles_ok d sg) st) now =
     (\<not> (year t = year now \<and> month t = month now \<and> dayOfMonth t = dayOfMonth now))"
  by (auto simp: shouldUpdateCandleData_def toDateString_def stamp_fetchCandleData)

text \<open>
  Data fetched at 23:59:59 on 1 November is stale one second later, at 00:00:00 on
  2 November, and data fetched at 00:00:00 on 2 November is not stale at 23:59:59
  of that day.
\<close>

theorem shouldUpdateCandleData_calendar_date_witness:
  "shouldUpdateCandleData (fetched_on (at_time 2026 10 1 23 59 59)) (at_time 2026 10 2 0 0 0) \<and>
   \<not> shouldUpdateCandleData (fetched_on (at_time 2026 10 2 0 0 0)) (at_time 2026 10 2 23 59 59)"
  using shouldUpdateCandleData_calendar_date
          [of "fetched_on (at_time 2026 10 1 23 59 59)" "at_time 2026 10 2 0 0 0" 0 0 0 t0
              "candles_of_day 365" "all_votes ''BUY''"]
        shouldUpdateCandleData_calendar_date
          [of "fetched_on (at_time 2026 10 2 0 0 0)" "at_time 2026 10 2 23 59 59" 0 0 0 t0
              "candles_of_day 365" "all_votes ''BUY''"]
  by (simp add: fetched_on_def at_time_def toDateString_def)

text \<open>
  Claim C9. The two daily checks disagree across a month boundary: there is a state
  whose candle data was fetched in an earlier month of the same year, on the same day
  of the month as today, for which \<open>shouldUpdateCandleData\<close> (equality of the date
  strings) says stale and the \<open>shouldUpdate\<close> of \<open>fetchCandleData\<close> (equality of the
  days of the month) says fresh.
\<close>

theorem daily_checks_disagree:
  "\<exists>st now cd t.
     candleData st = Some cd \<and> fetched_at cd = Some t \<and>
     lastCandleFetchDate st = toDateString t \<and>
     year t = year now \<and> month t < month now \<and> dayOfMonth t = dayOfMonth now \<and>
     shouldUpdateCandleData st now \<and> \<not> shouldUpdate st now"
proof (intro exI conjI)
  let ?t = "at_time 2026 9 2 12 0 0"
  let ?now = "at_time 2026 10 2 12 0 0"
  show "candleData (fetched_on ?t) = Some \<lparr> fetched_at = Some ?t, data_points = 365 \<rparr>"
    by (simp add: fetched_on_def)
  show "fetched_at \<lparr> fetched_at = Some ?t, data_points = 365 \<rparr> = Some ?t"
    by simp
  show "lastCandleFetchDate (fetched_on ?t) = toDateString ?t"
    by (simp add: fetched_on_def)
  show "year ?t = year ?now" "month ?t < month ?now" "dayOfMonth ?t = dayOfMonth ?now"
    by (simp_all add: at_time_def)
  show "shouldUpdateCandleData (fetched_on ?t) ?now"
    by (simp add: shouldUpdateCandleData_def fetched_on_def toDateString_def at_time_def)
  show "\<not> shouldUpdate (fetched_on ?t) ?now"
    by (simp add: shouldUpdate_def fetched_on_def getDate_def nneq_def at_time_def)
qed

text \<open>Hence the two checks are not the same function.\<close>

theorem daily_checks_disagree_witness:
  "\<not> (\<forall>st now. shouldUpdateCandleData st now = shouldUpdate st now)"
  using daily_checks_disagree by blast

section \<open>The treemap pass\<close>



lemma validCoins_Nil:
  "validCoins replies = [] \<longleftrightarrow> (\<forall>coinId \<in> set coinIds. treemapEntry (replies coinId) = None)"
  by (auto simp: validCoins_def List.map_filter_def filter_empty_conv)



lemma treemapData_fetchTreemapData:
  "treemapData (fetchTreemapData replies st) =
     (if validCoins replies = [] then treemapData st else sortedCoins (validCoins replies))"
  by (simp add: fetchTreemapData_def Let_def)






lemma validCoins_two_coins:
  "validCoins two_coins = [entry ''bitcoin'' 1100 110 10, entry ''ethereum'' 1800 9 (- 10)]"
  by (simp add: validCoins_def coinIds_def two_coins_def treemapEntry_def
      fetch_json_def answers_def pt_def entry_def priceChange_def nsub_def Let_def)

lemma validCoins_no_answer: "validCoins no_answer = []"
  by (simp add: validCoins_Nil no_answer_def treemapEntry_def fetch_json_def)



text \<open>
  Claim C10. When no coin of the pass succeeds, \<open>treemapData\<close> keeps the list it held
  and is not replaced by an empty list; when one coin at least succeeds it is replaced
  by the new ranking, which is then not empty.
\<close>

theorem treemap_kept_when_all_fail:
  "((\<forall>coinId \<in> set coinIds. treemapEntry (replies coinId) = None) \<longrightarrow>
      treemapData (fetchTreemapData replies st) = treemapData st) \<and>
   ((\<exists>coinId \<in> set coinIds. treemapEntry (replies coinId) \<noteq> None) \<longrightarrow>
      treemapData (fetchTreemapData replies st) = sortedCoins (validCoins replies) \<and>
      sortedCoins (validCoins replies) \<noteq> [])"
proof (intro conjI impI)
  assume "\<forall>coinId \<in> set coinIds. treemapEntry (replies coinId) = None"
  then have "validCoins replies = []" by (simp add: validCoins_Nil)
  then show "treemapData (fetchTreemapData replies st) = treemapData st"
    by (simp add: treemapData_fetchTreemapData)
next
  assume "\<exists>coinId \<in> set coinIds. treemapEntry (replies coinId) \<noteq> None"
  then have ne: "validCoins replies \<noteq> []" by (simp add: validCoins_Nil)
  then show "treemapData (fetchTreemapData replies st) = sortedCoins (validCoins replies)"
    by (simp add: treemapData_fetchTreemapData)
next
  assume "\<exists>coinId \<in> set coinIds. treemapEntry (replies coinId) \<noteq> None"
  then have "validCoins replies \<noteq> []" by (simp add: validCoins_Nil)
  then have "0 < length (sort_key (\<lambda>c. - t_market_cap c) (validCoins replies))"
    by simp
  then show "sortedCoins (validCoins replies) \<noteq> []"
    unfolding sortedCoins_def by (simp del: length_sort)
qed

text \<open>
  After a pass with two coins, a pass in which every fetch fails leaves the two coins
  in \<open>treemapData\<close>.
\<close>

theorem treemap_kept_when_all_fail_witness:
  "treemapData (fetchTreemapData no_answer (fetchTreemapData two_coins initial)) =
     [entry ''ethereum'' 1800 9 (- 10), entry ''bitcoin'' 1100 110 10]"
  using treemap_kept_when_all_fail[of no_answer "fetchTreemapData two_coins initial"]
  by (simp add: validCoins_Nil[symmetric] validCoins_no_answer treemapData_fetchTreemapData
        validCoins_two_coins sortedCoins_def entry_def)

section \<open>Ticks, failures and coin switches\<close>

lemma timers_intervalEffect:
  "timers (intervalEffect now st) =
     [(DataRefresh, selectedCoin st), (ForecastRefresh, selectedCoin st),
      (CandleCheck, selectedCoin st)]"
  by (simp add: intervalEffect_def Let_def)

lemma running_begin_call:
  "running (begin_call t coin now st) =
     (if (t = CandleCheck \<and> \<not> shouldUpdateCandleData (closure_view st) now) \<or>
         (t = MinIOFetch \<and> coin = [])
      then running st else running st @ [(t, coin)])"
  by (cases t) (simp_all add: begin_call_def)

lemma timers_begin_call: "timers (begin_call t coin now st) = timers st"
  by (cases t) (simp_all add: begin_call_def)

lemma closure_begin_call:
  "closureCandleData (begin_call t coin now st) = closureCandleData st"
  "closureLastCandleFetchDate (begin_call t coin now st) = closureLastCandleFetchDate st"
  by (cases t; simp add: begin_call_def)+

lemma closure_view_begin_call:
  "shouldUpdateCandleData (closure_view (begin_call t coin now st)) now' =
   shouldUpdateCandleData (closure_view st) now'"
  by (cases t) (simp_all add: begin_call_def closure_view_def shouldUpdateCandleData_def)

lemma tick_three:
  assumes "timers st = [(DataRefresh, c), (ForecastRefresh, c), (CandleCheck, c)]"
  shows "tick t now st = (if t = MinIOFetch then st else begin_call t c now st)"
  using assms by (cases t) (simp_all add: tick_def)

lemma closure_mount:
  "closureCandleData (mount now st) = candleData st"
  "closureLastCandleFetchDate (mount now st) = lastCandleFetchDate st"
  by (simp_all add: mount_def intervalEffect_def Let_def closure_begin_call capture_def
        resetCandle_def)

lemma mounted:
  "running (mount t0 initial) =
     [(DataRefresh, ''bitcoin''), (ForecastRefresh, ''bitcoin''), (CandleCheck, ''bitcoin'')]"
  "timers (mount t0 initial) =
     [(DataRefresh, ''bitcoin''), (ForecastRefresh, ''bitcoin''), (CandleCheck, ''bitcoin'')]"
  "selectedCoin (mount t0 initial) = ''bitcoin''"
  by (simp_all add: mount_def intervalEffect_def resetCandle_def begin_call_def initial_def
        capture_def closure_view_def shouldUpdateCandleData_def Let_def)

lemma timers_fetchSignals: "timers (fetchSignals r st) = timers st"
  by (simp add: fetchSignals_def candleCaught_def console_add_def split: outcome.splits option.splits)

lemma timers_fetchIndicators: "timers (fetchIndicators now r st) = timers st"
  by (simp add: fetchIndicators_def candleCaught_def console_add_def timers_fetchSignals
      split: outcome.splits option.splits)

lemma timers_fetchCandleData: "timers (fetchCandleData now r st) = timers st"
  by (simp add: fetchCandleData_def candleCaught_def console_add_def timers_fetchIndicators
      split: outcome.splits)

lemma closure_fetchSignals:
  "closureCandleData (fetchSignals r st) = closureCandleData st"
  "closureLastCandleFetchDate (fetchSignals r st) = closureLastCandleFetchDate st"
  by (simp_all add: fetchSignals_def candleCaught_def console_add_def
      split: outcome.splits option.splits)

lemma closure_fetchIndicators:
  "closureCandleData (fetchIndicators now r st) = closureCandleData st"
  "closureLastCandleFetchDate (fetchIndicators now r st) = closureLastCandleFetchDate st"
  by (simp_all add: fetchIndicators_def candleCaught_def console_add_def closure_fetchSignals
      split: outcome.splits option.splits)

lemma closure_fetchCandleData:
  "closureCandleData (fetchCandleData now r st) = closureCandleData st"
  "closureLastCandleFetchDate (fetchCandleData now r st) = closureLastCandleFetchDate st"
  by (simp_all add: fetchCandleData_def candleCaught_def console_add_def closure_fetchIndicators
      split: outcome.splits)

lemma fetchCandleData_ok:
  "candleData (fetchCandleData now (candles_ok d s) st) = Some d"
  "tradingSignals (fetchCandleData now (candles_ok d s) st) = Some s"
  "selectedCoin (fetchCandleData now (candles_ok d s) st) = selectedCoin st"
  "lastCandleFetchDate (fetchCandleData now (candles_ok d s) st) = toDateString now"
  "running (fetchCandleData now (candles_ok d s) st) = running st"
  by (simp_all add: fetchCandleData_def fetchIndicators_def fetchSignals_def candles_ok_def
        answers_def fetch_json_def)

lemma closure_fetchCurrentCoinData:
  "closureCandleData (fetchCurrentCoinData coin now cd st) = closureCandleData st"
  "closureLastCandleFetchDate (fetchCurrentCoinData coin now cd st) = closureLastCandleFetchDate st"
  by (simp_all add: fetchCurrentCoinData_def console_add_def split: outcome.splits option.splits)

lemma closure_fetchMinIOData:
  "closureCandleData (fetchMinIOData coin now r cd st) = closureCandleData st"
  "closureLastCandleFetchDate (fetchMinIOData coin now r cd st) = closureLastCandleFetchDate st"
  by (simp_all add: fetchMinIOData_def Let_def closure_fetchCurrentCoinData console_add_def
        split: outcome.splits option.splits)

lemma closure_fetchRealTimeChartData:
  "closureCandleData (fetchRealTimeChartData r st) = closureCandleData st"
  "closureLastCandleFetchDate (fetchRealTimeChartData r st) = closureLastCandleFetchDate st"
  by (simp_all add: fetchRealTimeChartData_def console_add_def
        split: outcome.splits option.splits)

lemma closure_fetchTreemapData:
  "closureCandleData (fetchTreemapData r st) = closureCandleData st"
  "closureLastCandleFetchDate (fetchTreemapData r st) = closureLastCandleFetchDate st"
  by (simp_all add: fetchTreemapData_def Let_def)

lemma closure_refreshAllData:
  "closureCandleData (refreshAllData coin now r st) = closureCandleData st"
  "closureLastCandleFetchDate (refreshAllData coin now r st) = closureLastCandleFetchDate st"
  by (simp_all add: refreshAllData_def Let_def closure_fetchTreemapData
        closure_fetchRealTimeChartData closure_fetchMinIOData)

lemma closure_generateForecast:
  "closureCandleData (generateForecast g st) = closureCandleData st"
  "closureLastCandleFetchDate (generateForecast g st) = closureLastCandleFetchDate st"
  by (simp_all add: generateForecast_def forecastCaught_def console_add_def
        split: outcome.splits option.splits)

lemma closure_refreshForecastData:
  "closureCandleData (refreshForecastData r st) = closureCandleData st"
  "closureLastCandleFetchDate (refreshForecastData r st) = closureLastCandleFetchDate st"
  by (simp_all add: refreshForecastData_def fetchForecastData_def forecastCaught_def
        console_add_def closure_generateForecast split: outcome.splits option.splits)

lemma closure_complete_call:
  "closureCandleData (complete_call coin r now st) = closureCandleData st"
  "closureLastCandleFetchDate (complete_call coin r now st) = closureLastCandleFetchDate st"
  by (cases r; simp add: complete_call_def Let_def closure_refreshAllData
        closure_refreshForecastData closure_fetchCandleData closure_fetchMinIOData)+

lemma closure_switchCoin:
  assumes "coin \<noteq> selectedCoin st"
  shows "closureCandleData (switchCoin coin now st) = candleData st"
    and "closureLastCandleFetchDate (switchCoin coin now st) = lastCandleFetchDate st"
  using assms
  by (simp_all add: switchCoin_def Let_def intervalEffect_def closure_begin_call capture_def)

text \<open>
  Claim C5, as amended. With the three intervals set by the effect, a tick of a task
  calls the refresh function of the task whether or not an earlier call of it is still
  in flight: a tick of \<open>refreshAllData\<close> or of \<open>refreshForecastData\<close> always adds one call
  in flight, and a tick of the candle check adds one whenever \<open>shouldUpdateCandleData\<close>
  holds of the candle data and the date stamp that the closure of the interval reads.
  These are the ones of the render in which the effect ran, that is of the state at
  the mount or at the click that selected another coin, and no call that returns
  later changes them. No tick is skipped, queued or deferred because of a call in
  flight, and the timers stay set.
\<close>

theorem tick_starts_call:
  assumes "timers st = [(DataRefresh, c), (ForecastRefresh, c), (CandleCheck, c)]"
  shows "running (tick DataRefresh now st) = running st @ [(DataRefresh, c)] \<and>
         running (tick ForecastRefresh now st) = running st @ [(ForecastRefresh, c)] \<and>
         running (tick CandleCheck now st) =
           (if shouldUpdateCandleData (closure_view st) now then running st @ [(CandleCheck, c)]
            else running st) \<and>
         timers (tick t now st) = timers st \<and>
         candleData (closure_view (mount now0 st0)) = candleData st0 \<and>
         lastCandleFetchDate (closure_view (mount now0 st0)) = lastCandleFetchDate st0 \<and>
         (coin \<noteq> selectedCoin st0 \<longrightarrow>
            candleData (closure_view (switchCoin coin now0 st0)) = candleData st0 \<and>
            lastCandleFetchDate (closure_view (switchCoin coin now0 st0)) =
              lastCandleFetchDate st0) \<and>
         candleData (closure_view (complete_call a r now1 st)) = candleData (closure_view st) \<and>
         lastCandleFetchDate (closure_view (complete_call a r now1 st)) =
           lastCandleFetchDate (closure_view st)"
  by (simp add: tick_three[OF assms] running_begin_call timers_begin_call closure_view_def
        closure_mount closure_complete_call closure_switchCoin)

text \<open>
  After the mount, with its first call of \<open>refreshAllData\<close> still in flight, a tick adds
  a second call. And after the candle fetch of the mount has returned with the data of
  the day, so that \<open>shouldUpdateCandleData\<close> is false of the state, the tick of the
  candle check starts a candle fetch all the same: its closure still reads the empty
  candle data of the first render. A click on another coin then makes closures that
  read the candle data of the coin selected before.
\<close>

theorem tick_starts_call_witness:
  "running (tick DataRefresh t1 (mount t0 initial)) =
     [(DataRefresh, ''bitcoin''), (ForecastRefresh, ''bitcoin''), (CandleCheck, ''bitcoin''),
      (DataRefresh, ''bitcoin'')] \<and>
   \<not> shouldUpdateCandleData
       (complete_call ''bitcoin'' (CandleReplies (candles_ok (candles_of_day 365) (all_votes ''BUY'')))
          t1 (mount t0 initial)) t2 \<and>
   running (tick CandleCheck t2
       (complete_call ''bitcoin'' (CandleReplies (candles_ok (candles_of_day 365) (all_votes ''BUY'')))
          t1 (mount t0 initial))) =
     [(DataRefresh, ''bitcoin''), (ForecastRefresh, ''bitcoin''), (CandleCheck, ''bitcoin'')] \<and>
   candleData (closure_view (switchCoin ''ethereum'' t2
       (complete_call ''bitcoin'' (CandleReplies (candles_ok (candles_of_day 365) (all_votes ''BUY'')))
          t1 (mount t0 initial)))) = Some (candles_of_day 365)"
proof -
  let ?st = "complete_call ''bitcoin''
      (CandleReplies (candles_ok (candles_of_day 365) (all_votes ''BUY''))) t1 (mount t0 initial)"
  have st: "?st = fetchCandleData t1 (candles_ok (candles_of_day 365) (all_votes ''BUY''))
      ((mount t0 initial)\<lparr>running := [(DataRefresh, ''bitcoin''), (ForecastRefresh, ''bitcoin'')]\<rparr>)"
    by (simp add: complete_call_def task_of_def mounted)
  have tm: "timers ?st =
      [(DataRefresh, ''bitcoin''), (ForecastRefresh, ''bitcoin''), (CandleCheck, ''bitcoin'')]"
    by (simp add: st timers_fetchCandleData mounted)
  have rn: "running ?st = [(DataRefresh, ''bitcoin''), (ForecastRefresh, ''bitcoin'')]"
    by (simp add: st fetchCandleData_ok)
  have sel: "selectedCoin ?st = ''bitcoin''"
    by (simp add: st fetchCandleData_ok mounted)
  have cd: "candleData ?st = Some (candles_of_day 365)"
    by (simp add: st fetchCandleData_ok)
  have fresh: "\<not> shouldUpdateCandleData ?st t2"
    unfolding st
    by (simp add: shouldUpdateCandleData_def fetchCandleData_ok toDateString_def t1_def
          t2_def at_time_def)
  have stale: "shouldUpdateCandleData (closure_view ?st) t2"
    unfolding st
    by (simp add: shouldUpdateCandleData_def closure_view_def closure_fetchCandleData
          closure_mount initial_def)
  note first = tick_starts_call[of "mount t0 initial" "''bitcoin''" t1 DataRefresh t0 initial
      "''ethereum''" "''bitcoin''" "CandleReplies (candles_ok (candles_of_day 365) (all_votes ''BUY''))"
      t1]
  note later = tick_starts_call[OF tm, of t2 CandleCheck t2 ?st "''ethereum''" "''bitcoin''"
      "CandleReplies (candles_ok (candles_of_day 365) (all_votes ''BUY''))" t1]
  have one: "running (tick DataRefresh t1 (mount t0 initial)) =
     [(DataRefresh, ''bitcoin''), (ForecastRefresh, ''bitcoin''), (CandleCheck, ''bitcoin''),
      (DataRefresh, ''bitcoin'')]"
    using first by (simp add: mounted)
  have two: "running (tick CandleCheck t2 ?st) =
     [(DataRefresh, ''bitcoin''), (ForecastRefresh, ''bitcoin''), (CandleCheck, ''bitcoin'')]"
    using later stale by (simp add: rn)
  have three: "candleData (closure_view (switchCoin ''ethereum'' t2 ?st)) =
      Some (candles_of_day 365)"
    using later by (simp add: sel cd)
  show ?thesis
    using one fresh two three by blast
qed

text \<open>
  Claim C5 as it is written fails: no guard looks at the calls in flight. The call of
  \<open>refreshAllData\<close> made at the mount has not returned when the first tick of its
  interval arrives, and after the tick two calls of it are in flight.
\<close>

theorem tick_not_skipped_counterexample:
  "(DataRefresh, ''bitcoin'') \<in> set (running (run [Mount t0] initial)) \<and>
   count_list (running (run [Mount t0, Tick DataRefresh t1] initial)) (DataRefresh, ''bitcoin'') = 2"
proof -
  have "run [Mount t0, Tick DataRefresh t1] initial = tick DataRefresh t1 (mount t0 initial)"
    by (simp add: run_def)
  moreover have "running (tick DataRefresh t1 (mount t0 initial)) =
     running (mount t0 initial) @ [(DataRefresh, ''bitcoin'')]"
    by (simp add: tick_three[OF mounted(2)] running_begin_call)
  moreover have "run [Mount t0] initial = mount t0 initial"
    by (simp add: run_def)
  ultimately show ?thesis
    by (simp add: mounted)
qed

lemma fetchForecastData_throws:
  assumes "from_minio r = Throws \<or>
     (\<exists>resp. from_minio r = Returns resp \<and>
        ((ok resp \<and> json resp = Throws) \<or>
         ((\<not> ok resp \<or> (\<exists>res. json resp = Returns res \<and> usable res = None)) \<and>
          (generate r = Throws \<or>
           (\<exists>g. generate r = Returns g \<and> ok g \<and> json g = Throws)))))"
  shows "fetchForecastData r st =
     st\<lparr>console := console st @ [ErrorFetchingForecastData], forecastData := None\<rparr>"
  using assms
  by (auto simp: fetchForecastData_def generateForecast_def forecastCaught_def console_add_def)

lemma timers_generateForecast: "timers (generateForecast g st) = timers st"
  by (simp add: generateForecast_def forecastCaught_def console_add_def
      split: outcome.splits option.splits)

lemma timers_fetchForecastData: "timers (fetchForecastData r st) = timers st"
  by (simp add: fetchForecastData_def forecastCaught_def console_add_def timers_generateForecast
      split: outcome.splits option.splits)

lemma fetchSignals_throws:
  "fetch_json r = Throws \<Longrightarrow>
   fetchSignals r st = st\<lparr>console := console st @ [ErrorFetchingCandleData], candleData := None\<rparr>"
  by (simp add: fetchSignals_def candleCaught_def console_add_def)

lemma fetchIndicators_throws:
  assumes "fetch_json (indicators c) = Throws \<or>
     ((\<exists>res d. fetch_json (indicators c) = Returns res \<and> success res \<and> data res = Some d) \<and>
      fetch_json (signals_reply c) = Throws)"
  shows "fetchIndicators now c st =
     st\<lparr>console := console st @ [ErrorFetchingCandleData], candleData := None,
        lastCandleFetchDate :=
          (if \<exists>res d. fetch_json (indicators c) = Returns res \<and> success res \<and> data res = Some d
           then toDateString now else lastCandleFetchDate st)\<rparr>"
  using assms
  by (auto simp: fetchIndicators_def fetchSignals_throws candleCaught_def console_add_def)

lemma fetchCandleData_throws:
  assumes "(shouldUpdate (closure_view st) now \<and> fetch_json (update c) = Throws) \<or>
     fetch_json (indicators c) = Throws \<or>
     ((\<exists>res d. fetch_json (indicators c) = Returns res \<and> success res \<and> data res = Some d) \<and>
      fetch_json (signals_reply c) = Throws)"
  shows "\<exists>w. set w \<subseteq> {WarnCandleUpdateFailed} \<and>
     fetchCandleData now c st =
       st\<lparr>console := console st @ w @ [ErrorFetchingCandleData], candleData := None,
          lastCandleFetchDate :=
            (if \<not> (shouldUpdate (closure_view st) now \<and> fetch_json (update c) = Throws) \<and>
                (\<exists>res d. fetch_json (indicators c) = Returns res \<and> success res \<and> data res = Some d)
             then toDateString now else lastCandleFetchDate st)\<rparr>"
proof (cases "shouldUpdate (closure_view st) now \<and> fetch_json (update c) = Throws")
  case True
  then have "fetchCandleData now c st =
      st\<lparr>console := console st @ [] @ [ErrorFetchingCandleData], candleData := None\<rparr>"
    by (simp add: fetchCandleData_def candleCaught_def console_add_def)
  then show ?thesis using True by (intro exI[of _ "[]"]) simp
next
  case False
  with assms have ind: "fetch_json (indicators c) = Throws \<or>
     ((\<exists>res d. fetch_json (indicators c) = Returns res \<and> success res \<and> data res = Some d) \<and>
      fetch_json (signals_reply c) = Throws)" by blast
  show ?thesis
  proof (cases "shouldUpdate (closure_view st) now \<and> (\<exists>u. fetch_json (update c) = Returns u \<and> \<not> success u)")
    case True
    then have "fetchCandleData now c st =
        fetchIndicators now c (console_add WarnCandleUpdateFailed st)"
      by (auto simp: fetchCandleData_def)
    then show ?thesis using False
      by (intro exI[of _ "[WarnCandleUpdateFailed]"])
         (auto simp: fetchIndicators_throws[OF ind] console_add_def)
  next
    case noWarn: False
    have "fetchCandleData now c st = fetchIndicators now c st"
      using False noWarn by (auto simp: fetchCandleData_def split: outcome.splits)
    then show ?thesis using False
      by (intro exI[of _ "[]"]) (auto simp: fetchIndicators_throws[OF ind])
  qed
qed

lemma fetchRealTimeChartData_throws:
  "fetchRealTimeChartData Throws st =
     st\<lparr>console := console st @ [ErrorFetchingRealTimeChartData]\<rparr>"
  by (simp add: fetchRealTimeChartData_def console_add_def)

lemma fetchMinIOData_throws:
  "cryptoData (fetchMinIOData coin now Throws Throws st) = cryptoData st"
  by (simp add: fetchMinIOData_def fetchCurrentCoinData_def console_add_def Let_def)

lemma fetchMinIOData_both_throw:
  "coin \<noteq> [] \<Longrightarrow>
   fetchMinIOData coin now Throws Throws st =
     st\<lparr>console := console st @ [ErrorFetchingMinIOData, ErrorFetchingCoinData],
        loading := False\<rparr>"
  by (simp add: fetchMinIOData_def fetchCurrentCoinData_def console_add_def Let_def)

text \<open>
  Claim C6, as amended. When a fetch inside a scheduled task throws, the failure is
  caught and logged inside the fetcher, which returns a state in every case, and the
  interval timers are as they were, so the later ticks of the task take place. What
  happens to the value of the feed depends on the feed. When the fetch of the chart
  data throws, or the fetch of \<open>fetchMinIOData\<close> and its fallback both throw, the
  previous value is retained. A throw at any place of \<open>fetchForecastData\<close> (either
  fetch, either \<open>json()\<close>) sets \<open>forecastData\<close> to \<open>null\<close> and changes nothing else
  but the console. A throw at any place of \<open>fetchCandleData\<close> (the update, the
  indicators or the signals) sets \<open>candleData\<close> to \<open>null\<close> and changes nothing else
  but the console, the error coming after the warning of a failed update if there was
  one, with one exception: the signals are fetched after \<open>lastCandleFetchDate\<close> has been
  set to today, and a throw there leaves that date stamp set.
\<close>

theorem failed_fetch:
  "((from_minio r = Throws \<or>
      (\<exists>resp. from_minio r = Returns resp \<and>
         ((ok resp \<and> json resp = Throws) \<or>
          ((\<not> ok resp \<or> (\<exists>res. json resp = Returns res \<and> usable res = None)) \<and>
           (generate r = Throws \<or>
            (\<exists>g. generate r = Returns g \<and> ok g \<and> json g = Throws)))))) \<longrightarrow>
      fetchForecastData r st =
        st\<lparr>console := console st @ [ErrorFetchingForecastData], forecastData := None\<rparr>) \<and>
   (((shouldUpdate (closure_view st) now \<and> fetch_json (update c) = Throws) \<or>
      fetch_json (indicators c) = Throws \<or>
      ((\<exists>res d. fetch_json (indicators c) = Returns res \<and> success res \<and> data res = Some d) \<and>
       fetch_json (signals_reply c) = Throws)) \<longrightarrow>
      (\<exists>w. set w \<subseteq> {WarnCandleUpdateFailed} \<and>
         fetchCandleData now c st =
           st\<lparr>console := console st @ w @ [ErrorFetchingCandleData], candleData := None,
              lastCandleFetchDate :=
                (if \<not> (shouldUpdate (closure_view st) now \<and> fetch_json (update c) = Throws) \<and>
                    (\<exists>res d. fetch_json (indicators c) = Returns res \<and> success res \<and>
                       data res = Some d)
                 then toDateString now else lastCandleFetchDate st)\<rparr>)) \<and>
   fetchRealTimeChartData Throws st =
     st\<lparr>console := console st @ [ErrorFetchingRealTimeChartData]\<rparr> \<and>
   (coin \<noteq> [] \<longrightarrow>
      fetchMinIOData coin now Throws Throws st =
        st\<lparr>console := console st @ [ErrorFetchingMinIOData, ErrorFetchingCoinData],
           loading := False\<rparr>) \<and>
   timers (fetchForecastData r st) = timers st \<and>
   timers (fetchCandleData now c st) = timers st"
proof (intro conjI impI)
  assume "from_minio r = Throws \<or>
      (\<exists>resp. from_minio r = Returns resp \<and>
         ((ok resp \<and> json resp = Throws) \<or>
          ((\<not> ok resp \<or> (\<exists>res. json resp = Returns res \<and> usable res = None)) \<and>
           (generate r = Throws \<or>
            (\<exists>g. generate r = Returns g \<and> ok g \<and> json g = Throws)))))"
  then show "fetchForecastData r st =
        st\<lparr>console := console st @ [ErrorFetchingForecastData], forecastData := None\<rparr>"
    by (rule fetchForecastData_throws)
next
  assume "(shouldUpdate (closure_view st) now \<and> fetch_json (update c) = Throws) \<or>
      fetch_json (indicators c) = Throws \<or>
      ((\<exists>res d. fetch_json (indicators c) = Returns res \<and> success res \<and> data res = Some d) \<and>
       fetch_json (signals_reply c) = Throws)"
  then show "\<exists>w. set w \<subseteq> {WarnCandleUpdateFailed} \<and>
         fetchCandleData now c st =
           st\<lparr>console := console st @ w @ [ErrorFetchingCandleData], candleData := None,
              lastCandleFetchDate :=
                (if \<not> (shouldUpdate (closure_view st) now \<and> fetch_json (update c) = Throws) \<and>
                    (\<exists>res d. fetch_json (indicators c) = Returns res \<and> success res \<and>
                       data res = Some d)
                 then toDateString now else lastCandleFetchDate st)\<rparr>"
    by (rule fetchCandleData_throws)
next
  show "fetchRealTimeChartData Throws st =
     st\<lparr>console := console st @ [ErrorFetchingRealTimeChartData]\<rparr>"
    by (rule fetchRealTimeChartData_throws)
next
  assume "coin \<noteq> []"
  then show "fetchMinIOData coin now Throws Throws st =
        st\<lparr>console := console st @ [ErrorFetchingMinIOData, ErrorFetchingCoinData],
           loading := False\<rparr>"
    by (rule fetchMinIOData_both_throw)
next
  show "timers (fetchForecastData r st) = timers st" by (rule timers_fetchForecastData)
next
  show "timers (fetchCandleData now c st) = timers st" by (rule timers_fetchCandleData)
qed

text \<open>
  A state that holds a forecast loses it when the fetch of the forecast throws, and
  the error is on the console. A state whose candle data was fetched the day before
  loses the data when the signals fetch throws, and its date stamp is the one of today.
\<close>

theorem failed_fetch_witness:
  "forecastData with_forecast = Some (forecast_of 60 110) \<and>
   forecastData (fetchForecastData forecast_fails with_forecast) = None \<and>
   console (fetchForecastData forecast_fails with_forecast) = [ErrorFetchingForecastData] \<and>
   lastCandleFetchDate (fetched_on (at_time 2026 10 1 23 59 59)) = DateString 2026 10 1 \<and>
   candleData (fetchCandleData t1 (signals_fail (candles_of_day 365))
       (fetched_on (at_time 2026 10 1 23 59 59))) = None \<and>
   lastCandleFetchDate (fetchCandleData t1 (signals_fail (candles_of_day 365))
       (fetched_on (at_time 2026 10 1 23 59 59))) = DateString 2026 10 2"
proof -
  note T = failed_fetch[of forecast_fails "fetched_on (at_time 2026 10 1 23 59 59)" t1
      "signals_fail (candles_of_day 365)" "''bitcoin''"]
  note F = failed_fetch[of forecast_fails with_forecast t1
      "signals_fail (candles_of_day 365)" "''bitcoin''"]
  have thrown: "fetch_json (signals_reply (signals_fail (candles_of_day 365))) = Throws"
    "fetch_json (indicators (signals_fail (candles_of_day 365))) =
       Returns \<lparr> success = True, data = Some (candles_of_day 365) \<rparr>"
    "fetch_json (update (signals_fail (candles_of_day 365))) =
       Returns \<lparr> success = True, data = Some () \<rparr>"
    by (simp_all add: signals_fail_def fetch_json_def answers_def)
  from T thrown obtain w where
    "fetchCandleData t1 (signals_fail (candles_of_day 365)) (fetched_on (at_time 2026 10 1 23 59 59)) =
       (fetched_on (at_time 2026 10 1 23 59 59))
         \<lparr>console := console (fetched_on (at_time 2026 10 1 23 59 59)) @ w @ [ErrorFetchingCandleData],
          candleData := None, lastCandleFetchDate := toDateString t1\<rparr>"
    by auto
  then have candle: "candleData (fetchCandleData t1 (signals_fail (candles_of_day 365))
       (fetched_on (at_time 2026 10 1 23 59 59))) = None"
    "lastCandleFetchDate (fetchCandleData t1 (signals_fail (candles_of_day 365))
       (fetched_on (at_time 2026 10 1 23 59 59))) = DateString 2026 10 2"
    by (simp_all add: toDateString_def t1_def at_time_def)
  have "from_minio forecast_fails = Throws"
    by (simp add: forecast_fails_def)
  with F have "fetchForecastData forecast_fails with_forecast =
      with_forecast\<lparr>console := console with_forecast @ [ErrorFetchingForecastData],
        forecastData := None\<rparr>"
    by blast
  then have forecast: "forecastData (fetchForecastData forecast_fails with_forecast) = None"
    "console (fetchForecastData forecast_fails with_forecast) = [ErrorFetchingForecastData]"
    by (simp_all add: with_forecast_def initial_def)
  show ?thesis
    using candle forecast
    by (simp add: with_forecast_def fetched_on_def toDateString_def at_time_def)
qed

text \<open>
  Claim C6 as it is written fails for the forecast and the candle data: the previous
  value is not retained. The forecast held before the failed fetch is gone after it,
  and so is the candle data.
\<close>

theorem failed_fetch_counterexample:
  "forecastData with_forecast = Some (forecast_of 60 110) \<and>
   forecastData (fetchForecastData \<lparr> from_minio = Throws, generate = Throws \<rparr> with_forecast) = None \<and>
   candleData (fetched_on t0) = Some \<lparr> fetched_at = Some t0, data_points = 365 \<rparr> \<and>
   candleData (fetchCandleData t1 \<lparr> update = Throws, indicators = Throws,
       signals_reply = Throws \<rparr> (fetched_on t0)) = None"
  by (simp add: with_forecast_def initial_def fetched_on_def fetchForecastData_def
      forecastCaught_def fetchCandleData_def fetchIndicators_def candleCaught_def console_add_def
      fetch_json_def shouldUpdate_def getDate_def nneq_def t0_def t1_def at_time_def)

lemma selectedCoin_begin_call: "selectedCoin (begin_call t coin now st) = selectedCoin st"
  by (cases t) (simp_all add: begin_call_def)

lemma candle_begin_call:
  "candleData (begin_call t coin now st) = candleData st"
  "lastCandleFetchDate (begin_call t coin now st) = lastCandleFetchDate st"
  "tradingSignals (begin_call t coin now st) = tradingSignals st"
  by (cases t; simp add: begin_call_def)+

lemma switchCoin_fields:
  assumes "b \<noteq> selectedCoin st"
  shows "selectedCoin (switchCoin b now st) = b"
    and "timers (switchCoin b now st) = [(DataRefresh, b), (ForecastRefresh, b), (CandleCheck, b)]"
    and "set (running st) \<subseteq> set (running (switchCoin b now st))"
    and "b \<noteq> [] \<Longrightarrow> candleData (switchCoin b now st) = None"
    and "b \<noteq> [] \<Longrightarrow> lastCandleFetchDate (switchCoin b now st) = NoDate"
    and "b \<noteq> [] \<Longrightarrow> tradingSignals (switchCoin b now st) = None"
proof -
  let ?clicked = "begin_call MinIOFetch (selectedCoin st) now st"
  let ?rendered = "capture st (resetCandle (clearIntervals (?clicked\<lparr>selectedCoin := b\<rparr>)))"
  have sw: "switchCoin b now st = intervalEffect now ?rendered"
    using assms by (simp add: switchCoin_def Let_def)
  have sel: "selectedCoin ?rendered = b"
    by (simp add: resetCandle_def clearIntervals_def capture_def)
  show "selectedCoin (switchCoin b now st) = b"
    by (simp add: sw intervalEffect_def Let_def sel selectedCoin_begin_call)
  show "timers (switchCoin b now st) = [(DataRefresh, b), (ForecastRefresh, b), (CandleCheck, b)]"
    by (simp add: sw timers_intervalEffect sel)
  have r0: "set (running st) \<subseteq> set (running ?clicked)"
    by (auto simp: running_begin_call)
  have rs: "running ?rendered = running ?clicked"
    by (simp add: resetCandle_def clearIntervals_def capture_def)
  have r1: "set (running st) \<subseteq> set (running ?rendered)"
    using r0 by (simp only: rs)
  have r2: "set (running ?rendered) \<subseteq> set (running (intervalEffect now ?rendered))"
    by (auto simp: intervalEffect_def Let_def running_begin_call)
  show "set (running st) \<subseteq> set (running (switchCoin b now st))"
    unfolding sw using r1 r2 by (rule subset_trans)
  show "candleData (switchCoin b now st) = None" if "b \<noteq> []"
    using that by (simp add: sw intervalEffect_def Let_def candle_begin_call resetCandle_def
        clearIntervals_def capture_def)
  show "lastCandleFetchDate (switchCoin b now st) = NoDate" if "b \<noteq> []"
    using that by (simp add: sw intervalEffect_def Let_def candle_begin_call resetCandle_def
        clearIntervals_def capture_def)
  show "tradingSignals (switchCoin b now st) = None" if "b \<noteq> []"
    using that by (simp add: sw intervalEffect_def Let_def candle_begin_call resetCandle_def
        clearIntervals_def capture_def)
qed

lemma complete_candles_ok:
  assumes "(CandleCheck, a) \<in> set (running st)"
  shows "candleData (complete_call a (CandleReplies (candles_ok d s)) now st) = Some d"
    and "tradingSignals (complete_call a (CandleReplies (candles_ok d s)) now st) = Some s"
    and "selectedCoin (complete_call a (CandleReplies (candles_ok d s)) now st) = selectedCoin st"
  using assms by (simp_all add: complete_call_def task_of_def Let_def fetchCandleData_ok)

text \<open>
  Claim C7, as amended. A switch from the coin \<open>a\<close> to another coin \<open>b\<close> replaces the
  interval timers of \<open>a\<close> by those of \<open>b\<close> and clears the candle data, its date stamp and
  the trading signals, but it cancels no call in flight: a candle fetch started for \<open>a\<close>
  is still in flight after the switch, and when its replies arrive its result is
  written into \<open>candleData\<close> and \<open>tradingSignals\<close> although \<open>b\<close> is the selected coin.
\<close>

theorem late_result_is_written:
  assumes "(CandleCheck, a) \<in> set (running st)"
    and "b \<noteq> selectedCoin st" and "b \<noteq> []"
  shows "selectedCoin (switchCoin b now st) = b \<and>
         timers (switchCoin b now st) = [(DataRefresh, b), (ForecastRefresh, b), (CandleCheck, b)] \<and>
         candleData (switchCoin b now st) = None \<and>
         lastCandleFetchDate (switchCoin b now st) = NoDate \<and>
         tradingSignals (switchCoin b now st) = None \<and>
         (CandleCheck, a) \<in> set (running (switchCoin b now st)) \<and>
         selectedCoin (complete_call a (CandleReplies (candles_ok d s)) later (switchCoin b now st)) = b \<and>
         candleData (complete_call a (CandleReplies (candles_ok d s)) later (switchCoin b now st)) = Some d \<and>
         tradingSignals (complete_call a (CandleReplies (candles_ok d s)) later (switchCoin b now st)) = Some s"
proof -
  have inflight: "(CandleCheck, a) \<in> set (running (switchCoin b now st))"
    using switchCoin_fields(3)[OF assms(2), of now] assms(1) by blast
  show ?thesis
    using inflight assms(3)
    by (simp add: switchCoin_fields[OF assms(2)] complete_candles_ok[OF inflight])
qed

text \<open>
  The candle fetch started for bitcoin at the mount is in flight when ethereum is
  selected, and its result is in the state afterwards.
\<close>

theorem late_result_is_written_witness:
  "selectedCoin (complete_call ''bitcoin'' (CandleReplies (candles_ok (candles_of_day 365) (all_votes ''BUY'')))
       t2 (switchCoin ''ethereum'' t1 (mount t0 initial))) = ''ethereum'' \<and>
   candleData (complete_call ''bitcoin'' (CandleReplies (candles_ok (candles_of_day 365) (all_votes ''BUY'')))
       t2 (switchCoin ''ethereum'' t1 (mount t0 initial))) = Some (candles_of_day 365)"
  using late_result_is_written[of "''bitcoin''" "mount t0 initial" "''ethereum''" t1
          "candles_of_day 365" "all_votes ''BUY''" t2]
  by (simp add: mounted)

text \<open>
  Claim C7 as it is written fails: the cleanup of the effect clears the intervals and
  nothing marks the calls in flight as stale. A candle fetch for bitcoin is started at
  the mount, ethereum is selected, then the replies for bitcoin arrive: the selected
  coin is ethereum and \<open>candleData\<close> holds the data of the bitcoin fetch.
\<close>

theorem late_result_counterexample:
  "(CandleCheck, ''bitcoin'') \<in> set (running (run [Mount t0] initial)) \<and>
   selectedCoin (run [Mount t0, SwitchCoin ''ethereum'' t1] initial) = ''ethereum'' \<and>
   candleData (run [Mount t0, SwitchCoin ''ethereum'' t1] initial) = None \<and>
   selectedCoin (run [Mount t0, SwitchCoin ''ethereum'' t1,
       Complete ''bitcoin'' (CandleReplies (candles_ok (candles_of_day 365) (all_votes ''BUY''))) t2]
       initial) = ''ethereum'' \<and>
   candleData (run [Mount t0, SwitchCoin ''ethereum'' t1,
       Complete ''bitcoin'' (CandleReplies (candles_ok (candles_of_day 365) (all_votes ''BUY''))) t2]
       initial) = Some (candles_of_day 365)"
proof -
  have ne: "''ethereum'' \<noteq> selectedCoin (mount t0 initial)"
    by (simp add: mounted)
  have inflight: "(CandleCheck, ''bitcoin'') \<in> set (running (switchCoin ''ethereum'' t1 (mount t0 initial)))"
    using switchCoin_fields(3)[OF ne, of t1] by (auto simp: mounted)
  show ?thesis
    by (simp add: run_def mounted switchCoin_fields[OF ne] complete_candles_ok[OF inflight])
qed

end
